theory Spec2Isabelle
  imports Complex_Main "HOL-Library.Log_Nat"
begin

section \<open>Data model (types.ts)\<close>

text \<open>
  The chat view (\<^verbatim>\<open>ClaudeChatView\<close>) and the plugin (\<^verbatim>\<open>ClaudeRockPlugin\<close>, main.ts) are
  embedded as records that are passed through every handler and returned updated.
  JavaScript numbers that count tokens are integers here; \<^verbatim>\<open>null\<close> and
  \<^verbatim>\<open>undefined\<close> are \<open>None\<close>; a string is the list of the bytes of its UTF-8 encoding.
\<close>

datatype Role = User | Assistant

datatype ClaudeModel = Haiku45 | Sonnet45 | Opus45

record ToolUseBlock =
  t_id :: string
  t_name :: string
  t_input :: string

record SelectionContext =
  sc_content :: string
  sc_source :: string
  sc_filePath :: string
  sc_startLine :: nat
  sc_startCh :: nat
  sc_endLine :: nat
  sc_endCh :: nat

record ChatMessage =
  m_id :: string
  m_role :: Role
  m_content :: string
  m_timestamp :: nat
  m_thinkingSteps :: "ToolUseBlock list option"
  m_selectionContext :: "SelectionContext option"

record SessionTokenStats =
  inputTokens :: int
  outputTokens :: int
  contextWindow :: int
  cacheReadTokens :: int
  compactCount :: nat
  lastCompactPreTokens :: "int option"

record ContextUsage =
  used :: int
  limit :: int
  nominal :: int
  percentage :: int

record ChatSession =
  s_id :: string
  s_cliSessionId :: "string option"
  s_messages :: "ChatMessage list"
  s_createdAt :: nat
  s_title :: "string option"
  s_model :: "ClaudeModel option"
  s_tokenStats :: "SessionTokenStats option"

text \<open>The \<^verbatim>\<open>usage\<close> object of a result record; a missing counter is \<open>None\<close>.\<close>

record Usage =
  input_tokens :: "int option"
  output_tokens :: "int option"
  cache_read_input_tokens :: "int option"
  cache_creation_input_tokens :: "int option"

record PendingMessage =
  p_text :: string
  p_tools :: "ToolUseBlock list"

text \<open>The content blocks of a conversation record; a tool result has the id of its tool use and its content.\<close>

datatype ContentBlock = TextBlock string | ToolUse ToolUseBlock | ToolResult string string

section \<open>Context usage (ClaudeChatView, lines 63--103)\<close>

definition CONTEXT_LIMIT :: int where
  "CONTEXT_LIMIT = 80000"

text \<open>
  \<^verbatim>\<open>AUTO_COMPACT_THRESHOLD * 100\<close> with \<^verbatim>\<open>AUTO_COMPACT_THRESHOLD = 0.85\<close>; the product
  is the double 85.
\<close>

definition AUTO_COMPACT_THRESHOLD_PERCENT :: int where
  "AUTO_COMPACT_THRESHOLD_PERCENT = 85"

definition initialTokenStats :: SessionTokenStats where
  "initialTokenStats =
     \<lparr>inputTokens = 0, outputTokens = 0, contextWindow = 200000, cacheReadTokens = 0,
      compactCount = 0, lastCompactPreTokens = None\<rparr>"

subsection \<open>Arithmetic on doubles\<close>

text \<open>
  A JavaScript number is an IEEE 754 double. The doubles met here are rationals: \<open>toDouble\<close>
  rounds a rational to the nearest double with a significand of 53 bits, a tie to the even
  significand, as the division, the multiplication and the addition of doubles round their
  exact result. \<open>ilog2 x\<close> is the exponent of a positive \<open>x\<close>, the \<open>e\<close> with
  \<open>2 powi e \<le> x < 2 powi (e + 1)\<close>. Exponents beyond the range of normal doubles do not arise
  from token counts and are not cut off.
\<close>

definition ilog2 :: "rat \<Rightarrow> int" where
  "ilog2 x = (let (p, q) = quotient_of x; d = bitlen p - bitlen q
              in if 2 powi d \<le> x then d else d - 1)"

definition roundHalfEven :: "rat \<Rightarrow> int" where
  "roundHalfEven q =
     (let f = \<lfloor>q\<rfloor>; r = q - of_int f
      in if r < 1 / 2 then f else if r > 1 / 2 then f + 1 else if even f then f else f + 1)"

definition toDouble :: "rat \<Rightarrow> rat" where
  "toDouble x =
     (if x = 0 then 0
      else (let a = \<bar>x\<bar>; e = ilog2 a; u = 2 powi (e - 52); n = roundHalfEven (a / u)
            in sgn x * of_int n * u))"

text \<open>The sum of two doubles that hold integers; the rounded sum is an integer again.\<close>

definition js_add :: "int \<Rightarrow> int \<Rightarrow> int" where
  "js_add a b = \<lfloor>toDouble (of_int (a + b))\<rfloor>"

text \<open>\<^verbatim>\<open>Math.round\<close> gives the nearest integer of a double, a tie upwards.\<close>

definition js_round :: "rat \<Rightarrow> int" where
  "js_round x = \<lfloor>x + 1 / 2\<rfloor>"

text \<open>
  Lines 95 and 101:
  \<^verbatim>\<open>Math.round(Math.min((usedTokens / effectiveLimit) * 100, 100))\<close>, the quotient and the
  product rounded to doubles.
\<close>

definition percentageOf :: "int \<Rightarrow> int" where
  "percentageOf usedTokens =
     js_round (min (toDouble (toDouble (of_int usedTokens / of_int CONTEXT_LIMIT) * 100)) 100)"

definition calculateContextUsage :: "SessionTokenStats \<Rightarrow> ContextUsage" where
  "calculateContextUsage stats =
     (let effectiveLimit = CONTEXT_LIMIT;
          usedTokens = js_add (inputTokens stats) (outputTokens stats)
      in \<lparr>used = usedTokens, limit = effectiveLimit, nominal = contextWindow stats,
          percentage = percentageOf usedTokens\<rparr>)"

section \<open>The plugin (main.ts)\<close>

text \<open>
  Of the settings only the default model and the day-keyed usage ledger are read or written
  by the code embedded here. \<open>savedData\<close> is the document last handed to the host's
  \<^verbatim>\<open>saveData\<close>.
\<close>

record ClaudeRockSettings =
  defaultModel :: ClaudeModel
  tokenHistory :: "string \<rightharpoonup> int"

record PluginData =
  d_settings :: ClaudeRockSettings
  d_sessions :: "ChatSession list"
  d_currentSessionId :: "string option"

record ClaudeRockPlugin =
  settings :: ClaudeRockSettings
  sessions :: "ChatSession list"
  currentSessionId :: "string option"
  savedData :: "PluginData option"

definition MAX_SESSIONS :: nat where
  "MAX_SESSIONS = 20"

definition saveSettings :: "ClaudeRockPlugin \<Rightarrow> ClaudeRockPlugin" where
  "saveSettings p =
     p\<lparr>savedData := Some \<lparr>d_settings = settings p,
                             d_sessions = take MAX_SESSIONS (sessions p),
                             d_currentSessionId = currentSessionId p\<rparr>\<rparr>"

text \<open>\<^verbatim>\<open>this.sessions.find(s => s.id === sessionId)\<close>: the first session with that id.\<close>

definition findSession :: "string \<Rightarrow> ChatSession list \<Rightarrow> ChatSession option" where
  "findSession sessionId ss = find (\<lambda>s. s_id s = sessionId) ss"

text \<open>
  A write to a field of the object that \<^verbatim>\<open>find\<close> returned changes that element of the
  list in place.
\<close>

fun updateSession :: "string \<Rightarrow> (ChatSession \<Rightarrow> ChatSession) \<Rightarrow> ChatSession list \<Rightarrow> ChatSession list" where
  "updateSession sessionId f [] = []"
| "updateSession sessionId f (s # ss) =
     (if s_id s = sessionId then f s # ss else s # updateSession sessionId f ss)"

definition createNewSession :: "string \<Rightarrow> nat \<Rightarrow> ClaudeRockPlugin \<Rightarrow> ChatSession \<times> ClaudeRockPlugin" where
  "createNewSession uuid now p =
     (let session = \<lparr>s_id = uuid, s_cliSessionId = None, s_messages = [], s_createdAt = now,
                      s_title = None, s_model = None, s_tokenStats = None\<rparr>
      in (session, saveSettings (p\<lparr>sessions := session # sessions p, currentSessionId := Some uuid\<rparr>)))"

definition getCurrentSession :: "ClaudeRockPlugin \<Rightarrow> ChatSession option" where
  "getCurrentSession p =
     (case currentSessionId p of
        None \<Rightarrow> None
      | Some c \<Rightarrow> if c = [] then None else findSession c (sessions p))"

definition switchToSession :: "string \<Rightarrow> ClaudeRockPlugin \<Rightarrow> ChatSession option \<times> ClaudeRockPlugin" where
  "switchToSession sessionId p =
     (case findSession sessionId (sessions p) of
        None \<Rightarrow> (None, p)
      | Some session \<Rightarrow> (Some session, saveSettings (p\<lparr>currentSessionId := Some sessionId\<rparr>)))"

text \<open>\<^verbatim>\<open>content.slice(0, 50) + (content.length > 50 ? "..." : "")\<close>\<close>

definition titleOf :: "string \<Rightarrow> string" where
  "titleOf c = take 50 c @ (if length c > 50 then ''...'' else [])"

definition autoTitle :: "ChatMessage list \<Rightarrow> ChatSession \<Rightarrow> ChatSession" where
  "autoTitle msgs session =
     (if (s_title session = None \<or> s_title session = Some []) \<and> length msgs > 0 then
        (case find (\<lambda>m. m_role m = User) msgs of
           None \<Rightarrow> session
         | Some firstUserMsg \<Rightarrow> session\<lparr>s_title := Some (titleOf (m_content firstUserMsg))\<rparr>)
      else session)"

definition updateCurrentSession ::
  "ChatMessage list \<Rightarrow> string option \<Rightarrow> SessionTokenStats option \<Rightarrow> ClaudeRockPlugin \<Rightarrow> ClaudeRockPlugin" where
  "updateCurrentSession msgs cliId stats p =
     (case getCurrentSession p of
        None \<Rightarrow> p
      | Some session \<Rightarrow>
          saveSettings (p\<lparr>sessions :=
            updateSession (s_id session)
              (\<lambda>s. autoTitle msgs
                     (s\<lparr>s_messages := msgs, s_cliSessionId := cliId,
                        s_tokenStats := (case stats of None \<Rightarrow> s_tokenStats s | Some t \<Rightarrow> Some t)\<rparr>))
              (sessions p)\<rparr>))"

text \<open>\<^verbatim>\<open>this.sessions[0]?.id || null\<close>: no first session, or an empty id, gives null.\<close>

definition firstSessionId :: "ChatSession list \<Rightarrow> string option" where
  "firstSessionId ss = (case ss of [] \<Rightarrow> None | s # _ \<Rightarrow> if s_id s = [] then None else Some (s_id s))"

definition deleteSession :: "string \<Rightarrow> ClaudeRockPlugin \<Rightarrow> ClaudeRockPlugin" where
  "deleteSession sessionId p =
     (let ss = filter (\<lambda>s. s_id s \<noteq> sessionId) (sessions p);
          p1 = p\<lparr>sessions := ss\<rparr>;
          p2 = (if currentSessionId p1 = Some sessionId
                then p1\<lparr>currentSessionId := firstSessionId ss\<rparr> else p1)
      in saveSettings p2)"

text \<open>
  \<open>today\<close> is \<^verbatim>\<open>new Date().toISOString().split("T")[0]\<close>, supplied by the caller.
  \<^verbatim>\<open>(tokenHistory[today] || 0)\<close> reads a missing day as 0.
\<close>

definition addTokensToHistory :: "int \<Rightarrow> string \<Rightarrow> ClaudeRockPlugin \<Rightarrow> ClaudeRockPlugin" where
  "addTokensToHistory tokens today p =
     (if tokens \<le> 0 then p
      else
        (let h = tokenHistory (settings p);
             old = (case h today of None \<Rightarrow> 0 | Some v \<Rightarrow> v)
         in saveSettings (p\<lparr>settings := (settings p)\<lparr>tokenHistory := h(today \<mapsto> old + tokens)\<rparr>\<rparr>)))"

section \<open>The agent service (ClaudeService)\<close>

text \<open>
  Modelled from the spec: ClaudeService.ts is not among the sources. Section 4.2 of the
  specification gives the registry as a map from session id to the pending (text, tools)
  accumulation and a map from session id to the resume token captured at the last Init
  event. \<open>sent\<close> logs the calls of \<^verbatim>\<open>sendMessage\<close> that spawned a process.
\<close>

record SendRequest =
  r_prompt :: string
  r_sessionId :: string
  r_resumeToken :: "string option"
  r_model :: ClaudeModel

record ClaudeService =
  pendingMessages :: "string \<rightharpoonup> PendingMessage"
  cliSessionIds :: "string \<rightharpoonup> string"
  sent :: "SendRequest list"

text \<open>Modelled from the spec: \<^verbatim>\<open>getPendingMessage\<close> exposes the in-flight accumulation of a session.\<close>

definition getPendingMessage :: "ClaudeService \<Rightarrow> string \<Rightarrow> PendingMessage option" where
  "getPendingMessage svc sessionId = pendingMessages svc sessionId"

text \<open>Modelled from the spec: \<^verbatim>\<open>clearPendingMessage\<close> clears it.\<close>

definition clearPendingMessage :: "string \<Rightarrow> ClaudeService \<Rightarrow> ClaudeService" where
  "clearPendingMessage sessionId svc = svc\<lparr>pendingMessages := (pendingMessages svc)(sessionId := None)\<rparr>"

text \<open>Modelled from the spec: \<^verbatim>\<open>getCliSessionId\<close> returns the resume token of the session, or null.\<close>

definition getCliSessionId :: "ClaudeService \<Rightarrow> string \<Rightarrow> string option" where
  "getCliSessionId svc sessionId = cliSessionIds svc sessionId"

text \<open>Modelled from the spec: \<^verbatim>\<open>clearSession\<close> drops the stored resume token.\<close>

definition clearSession :: "string \<Rightarrow> ClaudeService \<Rightarrow> ClaudeService" where
  "clearSession sessionId svc = svc\<lparr>cliSessionIds := (cliSessionIds svc)(sessionId := None)\<rparr>"

text \<open>
  Modelled from the spec: \<^verbatim>\<open>sendMessage\<close> spawns the agent process for the request. Whether
  the call returns or throws is decided outside the sources at hand, so the outcome is an
  input; a call that throws leaves the service as it was.
\<close>

datatype SendOutcome = Spawned | Threw

definition service_sendMessage :: "SendOutcome \<Rightarrow> SendRequest \<Rightarrow> ClaudeService \<Rightarrow> ClaudeService option" where
  "service_sendMessage outcome req svc =
     (case outcome of Spawned \<Rightarrow> Some (svc\<lparr>sent := sent svc @ [req]\<rparr>) | Threw \<Rightarrow> None)"

section \<open>The chat view (ClaudeChatView)\<close>

text \<open>
  The fields of the view that carry data or steer control flow. Elements of the page that are
  only drawn (thinking blocks, the token ring, the session dropdown, scrolling) are left out;
  no branch of the embedded code reads them back, except \<^verbatim>\<open>currentAssistantMessage\<close>, kept
  as the optional text of the streaming element, and the compaction overlay.

  \<^verbatim>\<open>this.messages\<close> is an array object. \<^verbatim>\<open>loadSession\<close> makes it a fresh copy,
  \<^verbatim>\<open>updateCurrentSession\<close> stores the very same array in the current session, so that a later
  \<^verbatim>\<open>push\<close> through either reference is seen through both. \<open>messagesSharedWith\<close> names the
  session whose \<open>s_messages\<close> is that same array; while it is set both fields hold the
  content of the one array. The token statistics are kept by value: the view's object is the
  displayed session's object or a fresh one, and every handler below that writes a session's
  statistics re-reads them into the view when that session is the displayed one.

  \<open>summaryListeners\<close> are the closures \<^verbatim>\<open>onStreaming\<close> and \<^verbatim>\<open>onComplete\<close> that
  \<^verbatim>\<open>runCompact\<close> registers on the service's emitter, each with its captured
  \<^verbatim>\<open>summarySessionId\<close> and \<^verbatim>\<open>summary\<close>; \<^verbatim>\<open>onComplete\<close> is never removed.
\<close>

datatype Status = Idle | Loading | StreamingStatus | ErrorStatus string

record SummaryListener =
  summarySessionId :: string
  summary :: string
  streamingAttached :: bool

record ClaudeChatView =
  messages :: "ChatMessage list"
  messagesSharedWith :: "string option"
  currentAssistantMessage :: "string option"
  currentAssistantContent :: string
  isGenerating :: bool
  activeSessionId :: "string option"
  currentModel :: ClaudeModel
  sessionStarted :: bool
  isContextPopupOpen :: bool
  tokenStats :: SessionTokenStats
  pendingAutoCompact :: bool
  compactOverlay :: bool
  compactSummary :: "string option"
  hasReceivedText :: bool
  currentMessageThinkingSteps :: "ToolUseBlock list"
  lastRecordedTokens :: int
  lastSelectionContext :: "SelectionContext option"
  status :: Status
  thinkingEnabled :: bool
  summaryListeners :: "SummaryListener list"

record World =
  plugin :: ClaudeRockPlugin
  service :: ClaudeService
  view :: ClaudeChatView

text \<open>
  What a handler takes from its surroundings: the values of \<^verbatim>\<open>crypto.randomUUID()\<close> (at most
  two per handler run), of \<^verbatim>\<open>Date.now()\<close>, the ISO date of the day, and the outcome of a
  \<^verbatim>\<open>sendMessage\<close> call.
\<close>

record Env =
  uuid1 :: string
  uuid2 :: string
  now :: nat
  today :: string
  sendOutcome :: SendOutcome

text \<open>
  \<^verbatim>\<open>String.prototype.trim\<close> removes from both ends the code points of WhiteSpace and
  LineTerminator: U+0009 to U+000D, U+0020, U+00A0, U+1680, U+2000 to U+200A, U+2028, U+2029,
  U+202F, U+205F, U+3000 and U+FEFF, here in their UTF-8 encoding.
\<close>

definition whiteSpaceCodes :: "string list" where
  "whiteSpaceCodes =
     [[CHR 0x09], [CHR 0x0A], [CHR 0x0B], [CHR 0x0C], [CHR 0x0D], [CHR 0x20],
      [CHR 0xC2, CHR 0xA0], [CHR 0xE1, CHR 0x9A, CHR 0x80],
      [CHR 0xE2, CHR 0x80, CHR 0x80], [CHR 0xE2, CHR 0x80, CHR 0x81],
      [CHR 0xE2, CHR 0x80, CHR 0x82], [CHR 0xE2, CHR 0x80, CHR 0x83],
      [CHR 0xE2, CHR 0x80, CHR 0x84], [CHR 0xE2, CHR 0x80, CHR 0x85],
      [CHR 0xE2, CHR 0x80, CHR 0x86], [CHR 0xE2, CHR 0x80, CHR 0x87],
      [CHR 0xE2, CHR 0x80, CHR 0x88], [CHR 0xE2, CHR 0x80, CHR 0x89],
      [CHR 0xE2, CHR 0x80, CHR 0x8A], [CHR 0xE2, CHR 0x80, CHR 0xA8],
      [CHR 0xE2, CHR 0x80, CHR 0xA9], [CHR 0xE2, CHR 0x80, CHR 0xAF],
      [CHR 0xE2, CHR 0x81, CHR 0x9F], [CHR 0xE3, CHR 0x80, CHR 0x80],
      [CHR 0xEF, CHR 0xBB, CHR 0xBF]]"

text \<open>The number of bytes of the white space code point a string starts or ends with, 0 for none.\<close>

definition leadingWhiteSpace :: "string \<Rightarrow> nat" where
  "leadingWhiteSpace s =
     (case find (\<lambda>c. take (length c) s = c) whiteSpaceCodes of None \<Rightarrow> 0 | Some c \<Rightarrow> length c)"

definition trailingWhiteSpace :: "string \<Rightarrow> nat" where
  "trailingWhiteSpace s =
     (case find (\<lambda>c. length c \<le> length s \<and> drop (length s - length c) s = c) whiteSpaceCodes of
        None \<Rightarrow> 0
      | Some c \<Rightarrow> length c)"

text \<open>Each step removes at least one byte, so as many steps as the string has bytes are enough.\<close>

fun trimStartN :: "nat \<Rightarrow> string \<Rightarrow> string" where
  "trimStartN 0 s = s"
| "trimStartN (Suc n) s =
     (if leadingWhiteSpace s = 0 then s else trimStartN n (drop (leadingWhiteSpace s) s))"

fun trimEndN :: "nat \<Rightarrow> string \<Rightarrow> string" where
  "trimEndN 0 s = s"
| "trimEndN (Suc n) s =
     (if trailingWhiteSpace s = 0 then s
      else trimEndN n (take (length s - trailingWhiteSpace s) s))"

definition trim :: "string \<Rightarrow> string" where
  "trim s = (let t = trimStartN (length s) s in trimEndN (length t) t)"

text \<open>\<^verbatim>\<open>this.messages.push(message)\<close>\<close>

definition pushViewMessage :: "ChatMessage \<Rightarrow> World \<Rightarrow> World" where
  "pushViewMessage m w =
     (let arr = messages (view w) @ [m];
          w1 = w\<lparr>view := (view w)\<lparr>messages := arr\<rparr>\<rparr>
      in case messagesSharedWith (view w) of
           None \<Rightarrow> w1
         | Some sid \<Rightarrow>
             w1\<lparr>plugin := (plugin w1)\<lparr>sessions :=
                   updateSession sid (\<lambda>s. s\<lparr>s_messages := arr\<rparr>) (sessions (plugin w1))\<rparr>\<rparr>)"

text \<open>\<^verbatim>\<open>session.messages.push(message)\<close> for the session found under \<open>sid\<close>\<close>

definition pushSessionMessage :: "string \<Rightarrow> ChatMessage \<Rightarrow> World \<Rightarrow> World" where
  "pushSessionMessage sid m w =
     (let w1 = w\<lparr>plugin := (plugin w)\<lparr>sessions :=
                   updateSession sid (\<lambda>s. s\<lparr>s_messages := s_messages s @ [m]\<rparr>) (sessions (plugin w))\<rparr>\<rparr>
      in if messagesSharedWith (view w) = Some sid
         then w1\<lparr>view := (view w1)\<lparr>messages := messages (view w1) @ [m]\<rparr>\<rparr>
         else w1)"

definition setStatus :: "Status \<Rightarrow> World \<Rightarrow> World" where
  "setStatus st w = w\<lparr>view := (view w)\<lparr>status := st\<rparr>\<rparr>"

text \<open>\<^verbatim>\<open>setStatus("error", message)\<close> shows \<^verbatim>\<open>message || "An error occurred"\<close>.\<close>

definition errorStatus :: "string \<Rightarrow> Status" where
  "errorStatus msg = ErrorStatus (if msg = [] then ''An error occurred'' else msg)"

definition setInputEnabled :: "bool \<Rightarrow> World \<Rightarrow> World" where
  "setInputEnabled enabled w = w\<lparr>view := (view w)\<lparr>isGenerating := \<not> enabled\<rparr>\<rparr>"

definition closeContextPopup :: "World \<Rightarrow> World" where
  "closeContextPopup w = w\<lparr>view := (view w)\<lparr>isContextPopupOpen := False\<rparr>\<rparr>"

definition showCompactAnimation :: "World \<Rightarrow> World" where
  "showCompactAnimation w = setInputEnabled False (w\<lparr>view := (view w)\<lparr>compactOverlay := True\<rparr>\<rparr>)"

definition hideCompactAnimation :: "World \<Rightarrow> World" where
  "hideCompactAnimation w = setInputEnabled True (w\<lparr>view := (view w)\<lparr>compactOverlay := False\<rparr>\<rparr>)"

subsection \<open>Sessions shown in the view (lines 1124--1160, 1300--1337)\<close>

definition loadSession :: "ChatSession \<Rightarrow> World \<Rightarrow> World" where
  "loadSession session w =
     (let stats = (case s_tokenStats session of None \<Rightarrow> initialTokenStats | Some t \<Rightarrow> t)
      in w\<lparr>view := (view w)
           \<lparr>activeSessionId := Some (s_id session),
            messages := s_messages session,
            messagesSharedWith := None,
            tokenStats := stats,
            lastRecordedTokens := inputTokens stats + outputTokens stats,
            sessionStarted := (length (s_messages session) > 0),
            currentModel := (case s_model session of
                               Some m \<Rightarrow> m
                             | None \<Rightarrow> defaultModel (settings (plugin w))),
            status := Idle\<rparr>\<rparr>)"

definition deleteSessionWithConfirm :: "string \<Rightarrow> World \<Rightarrow> World" where
  "deleteSessionWithConfirm sessionId w =
     (if length (sessions (plugin w)) \<le> 1 then w
      else
        (let w1 = w\<lparr>plugin := deleteSession sessionId (plugin w)\<rparr>
         in case getCurrentSession (plugin w1) of
              None \<Rightarrow> w1
            | Some currentSession \<Rightarrow> loadSession currentSession w1))"

definition saveCurrentSession :: "World \<Rightarrow> World" where
  "saveCurrentSession w =
     (let currentSession = getCurrentSession (plugin w);
          cliSessionId = (case currentSession of
                            None \<Rightarrow> None
                          | Some s \<Rightarrow> getCliSessionId (service w) (s_id s));
          p = updateCurrentSession (messages (view w)) cliSessionId (Some (tokenStats (view w))) (plugin w)
      in w\<lparr>plugin := p,
           view := (view w)\<lparr>messagesSharedWith :=
                     (case currentSession of
                        None \<Rightarrow> messagesSharedWith (view w)
                      | Some s \<Rightarrow> Some (s_id s))\<rparr>\<rparr>)"

subsection \<open>Assembling the assistant message (lines 1681--1929, 2122--2172)\<close>

definition addUserMessage :: "string \<Rightarrow> nat \<Rightarrow> string \<Rightarrow> World \<Rightarrow> World" where
  "addUserMessage uuid t c w =
     pushViewMessage \<lparr>m_id = uuid, m_role = User, m_content = c, m_timestamp = t,
                      m_thinkingSteps = None, m_selectionContext = None\<rparr> w"

definition prepareAssistantMessage :: "World \<Rightarrow> World" where
  "prepareAssistantMessage w =
     w\<lparr>view := (view w)\<lparr>currentAssistantContent := [], hasReceivedText := False,
                         currentAssistantMessage := None, currentMessageThinkingSteps := []\<rparr>\<rparr>"

definition saveToolStepsAsMessage :: "string \<Rightarrow> nat \<Rightarrow> World \<Rightarrow> World" where
  "saveToolStepsAsMessage uuid t w =
     (if length (currentMessageThinkingSteps (view w)) = 0 then w
      else
        (let message = \<lparr>m_id = uuid, m_role = Assistant, m_content = [], m_timestamp = t,
                        m_thinkingSteps = Some (currentMessageThinkingSteps (view w)),
                        m_selectionContext = None\<rparr>;
             w1 = pushViewMessage message w;
             w2 = w1\<lparr>view := (view w1)\<lparr>currentMessageThinkingSteps := []\<rparr>\<rparr>
         in saveCurrentSession w2))"

definition saveTextAsMessage :: "string \<Rightarrow> nat \<Rightarrow> World \<Rightarrow> World" where
  "saveTextAsMessage uuid t w =
     (if trim (currentAssistantContent (view w)) = [] then w
      else
        (let w1 = w\<lparr>view := (view w)\<lparr>currentAssistantMessage := None\<rparr>\<rparr>;
             message = \<lparr>m_id = uuid, m_role = Assistant,
                        m_content = currentAssistantContent (view w1), m_timestamp = t,
                        m_thinkingSteps = None,
                        m_selectionContext = lastSelectionContext (view w1)\<rparr>;
             w2 = pushViewMessage message w1;
             w3 = w2\<lparr>view := (view w2)\<lparr>currentAssistantContent := [], hasReceivedText := False\<rparr>\<rparr>
         in saveCurrentSession w3))"

definition createStreamingTextElement :: "World \<Rightarrow> World" where
  "createStreamingTextElement w = w\<lparr>view := (view w)\<lparr>currentAssistantMessage := Some []\<rparr>\<rparr>"

definition updateAssistantMessage :: "string \<Rightarrow> nat \<Rightarrow> string \<Rightarrow> World \<Rightarrow> World" where
  "updateAssistantMessage uuid t fullText w =
     (let w1 = (if \<not> hasReceivedText (view w) \<and> trim fullText \<noteq> [] then
                  (let wa = (if length (currentMessageThinkingSteps (view w)) > 0
                             then saveToolStepsAsMessage uuid t w else w);
                       wb = wa\<lparr>view := (view wa)\<lparr>hasReceivedText := True\<rparr>\<rparr>
                   in createStreamingTextElement wb)
                else w)
      in if currentAssistantMessage (view w1) = None then w1
         else w1\<lparr>view := (view w1)\<lparr>currentAssistantContent := fullText,
                                     currentAssistantMessage := Some fullText\<rparr>\<rparr>)"

text \<open>
  \<^verbatim>\<open>addToolStep\<close>: the thinking block is created when absent, so the early return on a
  missing steps container is never taken and the tool is always recorded.
\<close>

definition addToolStep :: "string \<Rightarrow> nat \<Rightarrow> ToolUseBlock \<Rightarrow> World \<Rightarrow> World" where
  "addToolStep uuid t tool w =
     (let w1 = (if hasReceivedText (view w) then
                  (let wa = saveTextAsMessage uuid t w
                   in wa\<lparr>view := (view wa)\<lparr>hasReceivedText := False\<rparr>\<rparr>)
                else w)
      in w1\<lparr>view := (view w1)\<lparr>currentMessageThinkingSteps :=
                                  currentMessageThinkingSteps (view w1) @ [tool]\<rparr>\<rparr>)"

definition finalizeAssistantMessage :: "string \<Rightarrow> nat \<Rightarrow> World \<Rightarrow> World" where
  "finalizeAssistantMessage uuid t w =
     (let w1 = w\<lparr>view := (view w)\<lparr>currentAssistantMessage := None\<rparr>\<rparr>;
          hasContent = (length (trim (currentAssistantContent (view w1))) > 0);
          hasToolSteps = (length (currentMessageThinkingSteps (view w1)) > 0);
          selectionContext = lastSelectionContext (view w1);
          w2 = (if hasContent \<or> hasToolSteps then
                  (let message = \<lparr>m_id = uuid, m_role = Assistant,
                                  m_content = currentAssistantContent (view w1), m_timestamp = t,
                                  m_thinkingSteps = (if hasToolSteps
                                                     then Some (currentMessageThinkingSteps (view w1))
                                                     else None),
                                  m_selectionContext = selectionContext\<rparr>
                   in saveCurrentSession (pushViewMessage message w1))
                else w1)
      in w2\<lparr>view := (view w2)\<lparr>currentAssistantMessage := None, currentAssistantContent := [],
                                hasReceivedText := False, currentMessageThinkingSteps := []\<rparr>\<rparr>)"

subsection \<open>Compaction (lines 975--1092)\<close>

definition newline :: string where
  "newline = [CHR 0x0A]"

fun joinWith :: "string \<Rightarrow> string list \<Rightarrow> string" where
  "joinWith sep [] = []"
| "joinWith sep [x] = x"
| "joinWith sep (x # y # ys) = x @ sep @ joinWith sep (y # ys)"

definition messagesToSummarize :: "ChatMessage list \<Rightarrow> string" where
  "messagesToSummarize ms =
     joinWith (newline @ newline)
       (map (\<lambda>m. (if m_role m = User then ''User'' else ''Assistant'') @ '': '' @ m_content m) ms)"

definition summaryPrompt :: "ChatMessage list \<Rightarrow> string" where
  "summaryPrompt ms =
     ''Please provide a concise summary of this conversation that captures the key context, decisions made, and current state. This summary will be used to continue the conversation in a new session.''
     @ newline @ newline @ ''Conversation:'' @ newline @ messagesToSummarize ms
     @ newline @ newline @ ''Provide only the summary, no additional commentary.''"

definition runCompact :: "string \<Rightarrow> SendOutcome \<Rightarrow> World \<Rightarrow> World" where
  "runCompact uuid outcome w =
     (let w0 = closeContextPopup w
      in if length (messages (view w0)) = 0 then w0
         else
           (let w1 = showCompactAnimation w0;
                sid = ''summary-'' @ uuid;
                w2 = w1\<lparr>view := (view w1)\<lparr>summaryListeners := summaryListeners (view w1) @
                        [\<lparr>summarySessionId = sid, summary = [], streamingAttached = True\<rparr>]\<rparr>\<rparr>;
                req = \<lparr>r_prompt = summaryPrompt (messages (view w2)), r_sessionId = sid,
                       r_resumeToken = None, r_model = currentModel (view w2)\<rparr>
            in case service_sendMessage outcome req (service w2) of
                 Some svc \<Rightarrow> w2\<lparr>service := svc\<rparr>
               | None \<Rightarrow> hideCompactAnimation w2))"

definition finishCompact :: "string \<Rightarrow> World \<Rightarrow> World" where
  "finishCompact summ w =
     (let w0 = hideCompactAnimation w;
          w1 = (case getCurrentSession (plugin w0) of
                  None \<Rightarrow> w0
                | Some currentSession \<Rightarrow>
                    (let p1 = (plugin w0)\<lparr>sessions :=
                                 updateSession (s_id currentSession) (\<lambda>s. s\<lparr>s_cliSessionId := None\<rparr>)
                                   (sessions (plugin w0))\<rparr>;
                         svc = clearSession (s_id currentSession) (service w0);
                         v1 = (view w0)\<lparr>compactSummary := Some summ, sessionStarted := False\<rparr>
                     in w0\<lparr>plugin := saveSettings p1, service := svc, view := v1\<rparr>));
          prevCompactCount = compactCount (tokenStats (view w1)) + 1
      in w1\<lparr>view := (view w1)\<lparr>tokenStats := initialTokenStats\<lparr>compactCount := prevCompactCount\<rparr>\<rparr>\<rparr>)"

text \<open>
  Lines 1647--1651 of \<^verbatim>\<open>sendMessage\<close>: the stored summary goes in front of the outgoing
  prompt, and is consumed, only when the message list was empty before the user message was
  added (\<^verbatim>\<open>isFirstMessage\<close>, line 1590). An empty summary is falsy.
\<close>

definition prependCompactSummary :: "bool \<Rightarrow> string \<Rightarrow> World \<Rightarrow> string \<times> World" where
  "prependCompactSummary isFirstMessage fullPrompt w =
     (case compactSummary (view w) of
        None \<Rightarrow> (fullPrompt, w)
      | Some summ \<Rightarrow>
          if isFirstMessage \<and> summ \<noteq> [] then
            (''[Previous conversation summary]:'' @ newline @ summ @ newline @ newline @ ''---''
               @ newline @ newline @ fullPrompt,
             w\<lparr>view := (view w)\<lparr>compactSummary := None\<rparr>\<rparr>)
          else (fullPrompt, w))"

text \<open>
  \<^verbatim>\<open>sendMessage\<close> (lines 1560--1679). What the note editor contributes is an input: the text
  of the input field, the prompt as lines 1599--1645 have built it from the user's text and
  the file, mention, attachment and selection context, and the selection itself; so is the
  answer of the service to \<^verbatim>\<open>isRunning\<close>. An exception of the service's
  \<^verbatim>\<open>sendMessage\<close> is not caught here.
\<close>

record SendInput =
  in_userInput :: string
  in_contextPrompt :: string
  in_selectedText :: "SelectionContext option"
  in_isRunning :: bool

definition sendMessage :: "Env \<Rightarrow> SendInput \<Rightarrow> World \<Rightarrow> World" where
  "sendMessage env inp w =
     (let userInput = trim (in_userInput inp)
      in case getCurrentSession (plugin w) of
           None \<Rightarrow> w
         | Some currentSession \<Rightarrow>
             if userInput = [] \<or> in_isRunning inp then w
             else
               (let isFirstMessage = (length (messages (view w)) = 0);
                    w1 = addUserMessage (uuid1 env) (now env) userInput w;
                    w2 = setStatus Loading (setInputEnabled False w1);
                    w3 = prepareAssistantMessage w2;
                    w4 = w3\<lparr>view := (view w3)\<lparr>lastSelectionContext := in_selectedText inp\<rparr>\<rparr>;
                    (prompt1, w5) = prependCompactSummary isFirstMessage (in_contextPrompt inp) w4;
                    cliSessionId = (case getCliSessionId (service w5) (s_id currentSession) of
                                      Some c \<Rightarrow> Some c
                                    | None \<Rightarrow> s_cliSessionId currentSession);
                    w6 = (if \<not> sessionStarted (view w5) then
                            w5\<lparr>view := (view w5)\<lparr>sessionStarted := True\<rparr>,
                               plugin := saveSettings ((plugin w5)\<lparr>sessions :=
                                  updateSession (s_id currentSession)
                                    (\<lambda>s. s\<lparr>s_model := Some (currentModel (view w5))\<rparr>)
                                    (sessions (plugin w5))\<rparr>)\<rparr>
                          else w5);
                    fullPrompt = (if thinkingEnabled (view w6) then ''ultrathink: '' @ prompt1
                                  else prompt1);
                    req = \<lparr>r_prompt = fullPrompt, r_sessionId = s_id currentSession,
                           r_resumeToken = cliSessionId, r_model = currentModel (view w6)\<rparr>
                in case service_sendMessage (sendOutcome env) req (service w6) of
                     Some svc \<Rightarrow> w6\<lparr>service := svc\<rparr>
                   | None \<Rightarrow> w6))"

subsection \<open>Service listeners (lines 386--546)\<close>

definition on_streaming :: "Env \<Rightarrow> string \<Rightarrow> string \<Rightarrow> World \<Rightarrow> World" where
  "on_streaming env sessionId text w =
     (if Some sessionId \<noteq> activeSessionId (view w) then w
      else setStatus StreamingStatus (updateAssistantMessage (uuid1 env) (now env) text w))"

text \<open>
  The assistant listener joins the text blocks of the one record it is given and shows them when
  there are any.
\<close>

fun textOf :: "ContentBlock list \<Rightarrow> string" where
  "textOf [] = []"
| "textOf (TextBlock t # bs) = t @ textOf bs"
| "textOf (b # bs) = textOf bs"

definition on_assistant :: "Env \<Rightarrow> string \<Rightarrow> ContentBlock list \<Rightarrow> World \<Rightarrow> World" where
  "on_assistant env sessionId content w =
     (if Some sessionId \<noteq> activeSessionId (view w) then w
      else if textOf content \<noteq> [] then updateAssistantMessage (uuid1 env) (now env) (textOf content) w
      else w)"

definition on_toolUse :: "Env \<Rightarrow> string \<Rightarrow> ToolUseBlock \<Rightarrow> World \<Rightarrow> World" where
  "on_toolUse env sessionId tool w =
     (if Some sessionId \<noteq> activeSessionId (view w) then w
      else addToolStep (uuid1 env) (now env) tool w)"

text \<open>Lines 411--435 of the result listener: saving into the session the event names.\<close>

definition result_persist :: "Env \<Rightarrow> string \<Rightarrow> World \<Rightarrow> World" where
  "result_persist env sessionId w =
     (case findSession sessionId (sessions (plugin w)) of
        None \<Rightarrow> w
      | Some session \<Rightarrow>
          (case getPendingMessage (service w) sessionId of
             None \<Rightarrow> w
           | Some pending \<Rightarrow>
               if p_text pending = [] then w
               else
                 (let assistantMessage =
                        \<lparr>m_id = uuid1 env, m_role = Assistant, m_content = p_text pending,
                         m_timestamp = now env,
                         m_thinkingSteps = (if length (p_tools pending) > 0
                                            then Some (p_tools pending) else None),
                         m_selectionContext = lastSelectionContext (view w)\<rparr>;
                      w1 = pushSessionMessage sessionId assistantMessage w;
                      w2 = (case getCliSessionId (service w1) sessionId of
                              None \<Rightarrow> w1
                            | Some cli \<Rightarrow>
                                if cli = [] then w1
                                else w1\<lparr>plugin := (plugin w1)\<lparr>sessions :=
                                          updateSession sessionId (\<lambda>s. s\<lparr>s_cliSessionId := Some cli\<rparr>)
                                            (sessions (plugin w1))\<rparr>\<rparr>);
                      w3 = w2\<lparr>plugin := saveSettings (plugin w2)\<rparr>
                  in w3\<lparr>service := clearPendingMessage sessionId (service w3)\<rparr>)))"

definition on_result :: "Env \<Rightarrow> string \<Rightarrow> bool \<Rightarrow> string \<Rightarrow> World \<Rightarrow> World" where
  "on_result env sessionId is_error resultText w =
     (let isActiveSession = (Some sessionId = activeSessionId (view w));
          w1 = result_persist env sessionId w
      in if isActiveSession then
           (let w2 = finalizeAssistantMessage (uuid2 env) (now env) w1
            in if is_error then setStatus (errorStatus resultText) w2 else setStatus Idle w2)
         else w1)"

definition on_complete :: "Env \<Rightarrow> string \<Rightarrow> int option \<Rightarrow> World \<Rightarrow> World" where
  "on_complete env sessionId code w =
     (let isActiveSession = (Some sessionId = activeSessionId (view w))
      in if isActiveSession then
           (let w1 = finalizeAssistantMessage (uuid1 env) (now env) w;
                w2 = setInputEnabled True w1
            in if pendingAutoCompact (view w2) then
                 runCompact (uuid2 env) (sendOutcome env)
                   (w2\<lparr>view := (view w2)\<lparr>pendingAutoCompact := False\<rparr>\<rparr>)
               else w2)
         else w)"

text \<open>\<^verbatim>\<open>x ?? 0\<close>\<close>

definition orZero :: "int option \<Rightarrow> int" where
  "orZero x = (case x of None \<Rightarrow> 0 | Some v \<Rightarrow> v)"

text \<open>Lines 483--489: the statistics object of the session after the four assignments.\<close>

definition applyUsage :: "Usage \<Rightarrow> SessionTokenStats option \<Rightarrow> SessionTokenStats" where
  "applyUsage u old =
     (case old of None \<Rightarrow> initialTokenStats | Some t \<Rightarrow> t)
       \<lparr>inputTokens := orZero (input_tokens u),
        outputTokens := orZero (output_tokens u),
        contextWindow := 200000,
        cacheReadTokens := orZero (cache_read_input_tokens u)\<rparr>"

definition on_contextUpdate :: "Env \<Rightarrow> string \<Rightarrow> Usage option \<Rightarrow> World \<Rightarrow> World" where
  "on_contextUpdate env sessionId usage w =
     (let isActiveSession = (Some sessionId = activeSessionId (view w))
      in case usage of
           None \<Rightarrow> w
         | Some u \<Rightarrow>
             (case findSession sessionId (sessions (plugin w)) of
                None \<Rightarrow> w
              | Some session \<Rightarrow>
                  (let stats = applyUsage u (s_tokenStats session);
                       w1 = w\<lparr>plugin := (plugin w)\<lparr>sessions :=
                               updateSession sessionId (\<lambda>s. s\<lparr>s_tokenStats := Some stats\<rparr>)
                                 (sessions (plugin w))\<rparr>\<rparr>;
                       currentTotal = inputTokens stats + outputTokens stats;
                       delta = currentTotal - lastRecordedTokens (view w1);
                       w2 = (if isActiveSession \<and> delta > 0 then
                               w1\<lparr>plugin := addTokensToHistory delta (today env) (plugin w1),
                                  view := (view w1)\<lparr>lastRecordedTokens := currentTotal\<rparr>\<rparr>
                             else w1);
                       w3 = w2\<lparr>plugin := saveSettings (plugin w2)\<rparr>
                   in if isActiveSession then
                        (let w4 = w3\<lparr>view := (view w3)\<lparr>tokenStats := stats\<rparr>\<rparr>;
                             usage' = calculateContextUsage (tokenStats (view w4))
                         in if percentage usage' \<ge> AUTO_COMPACT_THRESHOLD_PERCENT
                               \<and> \<not> pendingAutoCompact (view w4)
                            then w4\<lparr>view := (view w4)\<lparr>pendingAutoCompact := True\<rparr>\<rparr>
                            else w4)
                      else w3)))"

text \<open>The error listener; \<^verbatim>\<open>addErrorMessage\<close> only draws.\<close>

definition on_error :: "Env \<Rightarrow> string \<Rightarrow> string \<Rightarrow> World \<Rightarrow> World" where
  "on_error env sessionId err w =
     (if Some sessionId \<noteq> activeSessionId (view w) then w
      else setStatus (errorStatus err) (finalizeAssistantMessage (uuid1 env) (now env) w))"

text \<open>The rateLimitError listener, with \<^verbatim>\<open>handleRateLimitError\<close> (lines 2311--2316).\<close>

definition on_rateLimitError :: "Env \<Rightarrow> string \<Rightarrow> World \<Rightarrow> World" where
  "on_rateLimitError env sessionId w =
     (if Some sessionId \<noteq> activeSessionId (view w) then w
      else setStatus Idle (setInputEnabled True (finalizeAssistantMessage (uuid1 env) (now env) w)))"

text \<open>
  The compact listener (lines 515--533) counts a compaction that the agent reports by itself and
  records its pre-compaction total; it neither reads nor writes the pending flag and does not
  call \<^verbatim>\<open>runCompact\<close>. It is not embedded.
\<close>

subsection \<open>Emitting an event: the view's listener first, then those of runCompact\<close>

definition onStreaming :: "string \<Rightarrow> string \<Rightarrow> SummaryListener \<Rightarrow> SummaryListener" where
  "onStreaming sessionId text l =
     (if streamingAttached l \<and> sessionId = summarySessionId l
      then l\<lparr>summary := summary l @ text\<rparr> else l)"

definition emit_streaming :: "Env \<Rightarrow> string \<Rightarrow> string \<Rightarrow> World \<Rightarrow> World" where
  "emit_streaming env sessionId text w =
     (let w1 = on_streaming env sessionId text w
      in w1\<lparr>view := (view w1)\<lparr>summaryListeners :=
                map (onStreaming sessionId text) (summaryListeners (view w1))\<rparr>\<rparr>)"

definition onComplete :: "string \<Rightarrow> nat \<Rightarrow> World \<Rightarrow> World" where
  "onComplete sessionId i w =
     (let ls = summaryListeners (view w)
      in if i < length ls \<and> sessionId = summarySessionId (ls ! i) then
           finishCompact (summary (ls ! i))
             (w\<lparr>view := (view w)\<lparr>summaryListeners := ls[i := (ls ! i)\<lparr>streamingAttached := False\<rparr>]\<rparr>\<rparr>)
         else w)"

text \<open>
  The emitter calls the listeners that were registered when the event was emitted, so a
  listener added by \<^verbatim>\<open>runCompact\<close> during the view's own listener is not called for the
  same event.
\<close>

definition emit_complete :: "Env \<Rightarrow> string \<Rightarrow> int option \<Rightarrow> World \<Rightarrow> World" where
  "emit_complete env sessionId code w =
     (let n = length (summaryListeners (view w));
          w1 = on_complete env sessionId code w
      in fold (onComplete sessionId) [0..<n] w1)"

section \<open>Example states\<close>

text \<open>
  Two stored sessions: \<open>a\<close>, displayed, with a user and an assistant message, a resume token and
  68000 tokens used; and \<open>b\<close>, in the background, with one user message. The view is as
  \<^verbatim>\<open>loadSession\<close> leaves it for \<open>a\<close>.
\<close>

definition exTool1 :: ToolUseBlock where
  "exTool1 = \<lparr>t_id = ''tu1'', t_name = ''Read'', t_input = ''a.md''\<rparr>"

definition exTool2 :: ToolUseBlock where
  "exTool2 = \<lparr>t_id = ''tu2'', t_name = ''Grep'', t_input = ''x''\<rparr>"

definition exUserMsg :: ChatMessage where
  "exUserMsg = \<lparr>m_id = ''m1'', m_role = User, m_content = ''hello'', m_timestamp = 1,
                m_thinkingSteps = None, m_selectionContext = None\<rparr>"

definition exAssistantMsg :: ChatMessage where
  "exAssistantMsg = \<lparr>m_id = ''m2'', m_role = Assistant, m_content = ''hi'', m_timestamp = 2,
                     m_thinkingSteps = None, m_selectionContext = None\<rparr>"

definition exStats :: SessionTokenStats where
  "exStats = \<lparr>inputTokens = 60000, outputTokens = 8000, contextWindow = 200000,
              cacheReadTokens = 0, compactCount = 0, lastCompactPreTokens = None\<rparr>"

definition exSessionA :: ChatSession where
  "exSessionA = \<lparr>s_id = ''a'', s_cliSessionId = Some ''cli-a'',
                 s_messages = [exUserMsg, exAssistantMsg], s_createdAt = 0,
                 s_title = Some ''hello'', s_model = Some Haiku45, s_tokenStats = Some exStats\<rparr>"

definition exSessionB :: ChatSession where
  "exSessionB = \<lparr>s_id = ''b'', s_cliSessionId = None, s_messages = [exUserMsg], s_createdAt = 0,
                 s_title = None, s_model = None, s_tokenStats = None\<rparr>"

definition exPlugin :: ClaudeRockPlugin where
  "exPlugin = \<lparr>settings = \<lparr>defaultModel = Haiku45, tokenHistory = Map.empty\<rparr>,
               sessions = [exSessionA, exSessionB], currentSessionId = Some ''a'',
               savedData = None\<rparr>"

definition exService :: ClaudeService where
  "exService = \<lparr>pendingMessages = Map.empty, cliSessionIds = [''a'' \<mapsto> ''cli-a''], sent = []\<rparr>"

definition exView :: ClaudeChatView where
  "exView = \<lparr>messages = [exUserMsg, exAssistantMsg], messagesSharedWith = None,
             currentAssistantMessage = None, currentAssistantContent = [], isGenerating = False,
             activeSessionId = Some ''a'', currentModel = Haiku45, sessionStarted = True,
             isContextPopupOpen = False, tokenStats = exStats, pendingAutoCompact = False,
             compactOverlay = False, compactSummary = None, hasReceivedText = False,
             currentMessageThinkingSteps = [], lastRecordedTokens = 68000,
             lastSelectionContext = None, status = Idle, thinkingEnabled = False,
             summaryListeners = []\<rparr>"

definition exWorld :: World where
  "exWorld = \<lparr>plugin = exPlugin, service = exService, view = exView\<rparr>"

definition exEnv :: Env where
  "exEnv = \<lparr>uuid1 = ''u1'', uuid2 = ''u2'', now = 5, today = ''2025-01-01'', sendOutcome = Spawned\<rparr>"

definition withPending :: "string \<Rightarrow> PendingMessage \<Rightarrow> World \<Rightarrow> World" where
  "withPending sid pm w = w\<lparr>service := (service w)\<lparr>pendingMessages := (pendingMessages (service w))(sid \<mapsto> pm)\<rparr>\<rparr>"


definition exCompactedWorld :: World where
  "exCompactedWorld =
     emit_complete exEnv ''summary-x'' (Some 0)
       (emit_streaming exEnv ''summary-x'' ''Hello''
          (emit_streaming exEnv ''summary-x'' ''He'' (runCompact ''x'' Spawned exWorld)))"

definition exNextInput :: SendInput where
  "exNextInput = \<lparr>in_userInput = ''next'', in_contextPrompt = ''next'', in_selectedText = None,
                  in_isRunning = False\<rparr>"

definition exWindowWorld :: World where
  "exWindowWorld =
     exWorld\<lparr>plugin := exPlugin\<lparr>sessions :=
       [exSessionA\<lparr>s_tokenStats := Some (exStats\<lparr>contextWindow := 100000\<rparr>)\<rparr>, exSessionB]\<rparr>\<rparr>"

definition exToolsOnly :: PendingMessage where
  "exToolsOnly = \<lparr>p_text = [], p_tools = [exTool1, exTool2]\<rparr>"

definition exTextAndTools :: PendingMessage where
  "exTextAndTools = \<lparr>p_text = ''done'', p_tools = [exTool1, exTool2]\<rparr>"

definition exUsage :: Usage where
  "exUsage = \<lparr>input_tokens = Some 3000, output_tokens = Some 2000,
              cache_read_input_tokens = None, cache_creation_input_tokens = Some 7\<rparr>"

definition exUsage85 :: Usage where
  "exUsage85 = \<lparr>input_tokens = Some 60000, output_tokens = Some 8000,
                cache_read_input_tokens = Some 0, cache_creation_input_tokens = None\<rparr>"

definition exUsageMore :: Usage where
  "exUsageMore = \<lparr>input_tokens = Some 61000, output_tokens = Some 8500,
                  cache_read_input_tokens = Some 10, cache_creation_input_tokens = None\<rparr>"

definition exOneUserWorld :: World where
  "exOneUserWorld = exWorld\<lparr>view := exView\<lparr>messages := [exUserMsg]\<rparr>\<rparr>"

definition exEmptyWorld :: World where
  "exEmptyWorld = exWorld\<lparr>view := exView\<lparr>messages := []\<rparr>\<rparr>"

section \<open>Auxiliary lemmas\<close>

lemmas ex_defs = exUserMsg_def exAssistantMsg_def exStats_def exSessionA_def
  exSessionB_def exPlugin_def exService_def exView_def exWorld_def exEnv_def

subsection \<open>Rounding\<close>

lemma pow2_int: "0 \<le> n \<Longrightarrow> (2::rat) powi n = 2 ^ nat n"
  by (simp add: power_int_def)

lemma ilog2_bounds:
  assumes "x > 0"
  shows "2 powi (ilog2 x) \<le> x" and "x < 2 powi (ilog2 x + 1)"
proof -
  obtain p q where pq: "quotient_of x = (p, q)" by (cases "quotient_of x")
  then have q: "q > 0" and x: "x = of_int p / of_int q"
    using quotient_of_denom_pos quotient_of_div by auto
  from assms x q have p: "p > 0"
    by (simp add: zero_less_divide_iff)
  let ?bp = "bitlen p" and ?bq = "bitlen q"
  have bp: "?bp \<ge> 1" "?bq \<ge> 1" using p q by (auto simp: bitlen_alt_def)
  from bitlen_bounds [OF p] have p1: "(2::rat) ^ nat (?bp - 1) \<le> of_int p" and p2: "of_int p < (2::rat) ^ nat ?bp"
    by (metis of_int_le_iff of_int_numeral of_int_power, metis of_int_less_iff of_int_numeral of_int_power)
  from bitlen_bounds [OF q] have q1: "(2::rat) ^ nat (?bq - 1) \<le> of_int q" and q2: "of_int q < (2::rat) ^ nat ?bq"
    by (metis of_int_le_iff of_int_numeral of_int_power, metis of_int_less_iff of_int_numeral of_int_power)
  have P1: "(2::rat) powi (?bp - 1) \<le> of_int p" and P2: "of_int p < (2::rat) powi ?bp"
    and Q1: "(2::rat) powi (?bq - 1) \<le> of_int q" and Q2: "of_int q < (2::rat) powi ?bq"
    using p1 p2 q1 q2 bp by (simp_all add: pow2_int)
  have qpos: "(0::rat) < of_int q" using q by simp
  have up: "x < 2 powi (?bp - ?bq + 1)"
  proof -
    have "x < 2 powi ?bp / of_int q" unfolding x using P2 qpos by (simp add: divide_strict_right_mono)
    also have "\<dots> \<le> 2 powi ?bp / 2 powi (?bq - 1)"
      using Q1 qpos by (intro divide_left_mono) (auto intro!: mult_pos_pos)
    also have "\<dots> = 2 powi (?bp - (?bq - 1))" by (simp add: power_int_diff)
    finally show ?thesis by (simp add: algebra_simps)
  qed
  have lo: "2 powi (?bp - ?bq - 1) \<le> x"
  proof -
    have "2 powi (?bp - 1 - ?bq) = (2::rat) powi (?bp - 1) / 2 powi ?bq" by (simp add: power_int_diff)
    also have "\<dots> \<le> of_int p / 2 powi ?bq" using P1 by (simp add: divide_right_mono)
    also have "\<dots> \<le> of_int p / of_int q"
      using Q2 qpos p by (intro divide_left_mono) (auto intro!: mult_pos_pos)
    finally show ?thesis unfolding x by (simp add: algebra_simps)
  qed
  show "2 powi (ilog2 x) \<le> x"
    using lo by (simp add: ilog2_def pq Let_def)
  show "x < 2 powi (ilog2 x + 1)"
    using up by (auto simp: ilog2_def pq Let_def not_le)
qed

lemma roundHalfEven_near: "\<bar>of_int (roundHalfEven q) - q\<bar> \<le> 1 / 2"
proof -
  have "of_int \<lfloor>q\<rfloor> \<le> q" "q < of_int \<lfloor>q\<rfloor> + 1" by linarith+
  then show ?thesis
    unfolding roundHalfEven_def Let_def by (simp add: abs_le_iff)
qed

lemma roundHalfEven_of_int: "roundHalfEven (of_int m) = m"
  by (simp add: roundHalfEven_def)

lemma toDouble_rel_err: "\<bar>toDouble x - x\<bar> \<le> \<bar>x\<bar> / 2 ^ 53"
proof (cases "x = 0")
  case True
  then show ?thesis by (simp add: toDouble_def)
next
  case False
  let ?a = "\<bar>x\<bar>"
  let ?e = "ilog2 ?a"
  let ?u = "(2::rat) powi (?e - 52)"
  let ?n = "roundHalfEven (?a / ?u)"
  have a: "?a > 0" using False by simp
  have u: "?u > 0" by simp
  have td: "toDouble x = sgn x * of_int ?n * ?u"
    using False by (simp add: toDouble_def Let_def)
  have xs: "x = sgn x * ?a" by (simp add: sgn_mult_abs)
  have "toDouble x - x = sgn x * (of_int ?n * ?u - ?a)"
    unfolding td by (subst (2) xs) (simp add: algebra_simps)
  then have 1: "\<bar>toDouble x - x\<bar> = \<bar>of_int ?n * ?u - ?a\<bar>"
    using False by (simp add: abs_mult abs_sgn_eq)
  have "of_int ?n * ?u - ?a = (of_int ?n - ?a / ?u) * ?u" using u by (simp add: field_simps)
  then have "\<bar>of_int ?n * ?u - ?a\<bar> = \<bar>of_int ?n - ?a / ?u\<bar> * ?u"
    using u by (simp add: abs_mult)
  also have "\<dots> \<le> (1 / 2) * ?u"
    using roundHalfEven_near [of "?a / ?u"] u by (intro mult_right_mono) simp_all
  finally have 2: "\<bar>of_int ?n * ?u - ?a\<bar> \<le> (1 / 2) * ?u" .
  have "(1 / 2) * ?u = 2 powi ?e / 2 ^ 53" by (simp add: power_int_diff)
  also have "\<dots> \<le> ?a / 2 ^ 53"
    using ilog2_bounds(1) [OF a] by (simp add: divide_right_mono)
  finally have "(1 / 2) * ?u \<le> ?a / 2 ^ 53" .
  with 2 show ?thesis unfolding 1 by linarith
qed

lemma toDouble_of_int:
  assumes "\<bar>s\<bar> \<le> 2 ^ 53"
  shows "toDouble (of_int s) = of_int s"
proof (cases "s = 0")
  case True
  then show ?thesis by (simp add: toDouble_def)
next
  case False
  let ?a = "\<bar>rat_of_int s\<bar>"
  let ?e = "ilog2 ?a"
  let ?u = "(2::rat) powi (?e - 52)"
  have a: "?a > 0" using False by simp
  have aint: "?a = of_int \<bar>s\<bar>" by simp
  have ale: "?a \<le> 2 ^ 53" using assms by (metis aint of_int_le_iff of_int_numeral of_int_power)
  have e53: "?e \<le> 53"
  proof (rule ccontr)
    assume "\<not> ?e \<le> 53"
    then have "54 \<le> ?e" by simp
    then have "(2::rat) powi 54 \<le> 2 powi ?e" by (intro power_int_increasing) simp_all
    with ilog2_bounds(1) [OF a] ale show False by (simp add: power_int_def)
  qed
  have "\<exists>m. ?a / ?u = of_int m"
  proof (cases "?e \<le> 52")
    case True
    then have "?u = 1 / 2 ^ nat (52 - ?e)"
      by (simp add: power_int_def inverse_eq_divide power_one_over [symmetric] del: power_one_over)
    then have "?a / ?u = of_int (\<bar>s\<bar> * 2 ^ nat (52 - ?e))" by simp
    then show ?thesis by blast
  next
    case False
    with e53 have e: "?e = 53" by simp
    then have "(2::rat) ^ 53 \<le> ?a" using ilog2_bounds(1) [OF a] by (simp add: power_int_def)
    with ale have "?a = 2 ^ 53" by simp
    moreover have "?u = 2" using e by simp
    ultimately have "?a / ?u = of_int (2 ^ 52)" by simp
    then show ?thesis by blast
  qed
  then obtain m where m: "?a / ?u = of_int m" ..
  have "toDouble (of_int s) = sgn (of_int s) * of_int (roundHalfEven (?a / ?u)) * ?u"
    using False by (simp add: toDouble_def Let_def)
  also have "\<dots> = sgn (of_int s) * (?a / ?u) * ?u"
    unfolding m roundHalfEven_of_int ..
  also have "\<dots> = sgn (of_int s) * ?a" by simp
  also have "\<dots> = of_int s" by (simp only: sgn_mult_abs)
  finally show ?thesis .
qed

lemma toDouble_nonneg_bounds:
  assumes "0 \<le> x"
  shows "x * (1 - 1 / 2 ^ 53) \<le> toDouble x" and "toDouble x \<le> x * (1 + 1 / 2 ^ 53)"
proof -
  define d where "d = x / 2 ^ 53"
  have r: "\<bar>toDouble x - x\<bar> \<le> d"
    unfolding d_def using toDouble_rel_err [of x] assms by simp
  have a: "x * (1 - 1 / 2 ^ 53) = x - d" "x * (1 + 1 / 2 ^ 53) = x + d"
    unfolding d_def by (simp_all add: algebra_simps)
  show "x * (1 - 1 / 2 ^ 53) \<le> toDouble x" "toDouble x \<le> x * (1 + 1 / 2 ^ 53)"
    unfolding a using r by linarith+
qed

lemma double_quotient_bounds:
  assumes "0 \<le> u"
  defines "e \<equiv> rat_of_int u / 800"
  defines "z \<equiv> toDouble (toDouble (rat_of_int u / 80000) * 100)"
  shows "e - e * (2 / 2 ^ 53) \<le> z" and "z \<le> e + e * (3 / 2 ^ 53)"
proof -
  let ?x = "rat_of_int u / 80000"
  let ?y = "toDouble ?x"
  have x0: "0 \<le> ?x" using assms by simp
  note y = toDouble_nonneg_bounds [OF x0]
  have "0 \<le> ?x * (1 - 1 / 2 ^ 53)" using x0 by (intro mult_nonneg_nonneg) simp_all
  from this y(1) have y0: "0 \<le> ?y" by (rule order_trans)
  then have w0: "0 \<le> ?y * 100" by simp
  note z = toDouble_nonneg_bounds [OF w0]
  have ex: "e = ?x * 100" by (simp add: e_def)
  have "e - e * (2 / 2 ^ 53) \<le> ?x * (1 - 1 / 2 ^ 53) * 100 * (1 - 1 / 2 ^ 53)"
    unfolding ex using x0 by (simp add: algebra_simps)
  also have "\<dots> \<le> ?y * 100 * (1 - 1 / 2 ^ 53)"
    using y(1) by (intro mult_right_mono) simp_all
  also have "\<dots> \<le> z" unfolding z_def by (rule z(1))
  finally show "e - e * (2 / 2 ^ 53) \<le> z" .
  have "z \<le> ?y * 100 * (1 + 1 / 2 ^ 53)" unfolding z_def by (rule z(2))
  also have "\<dots> \<le> ?x * (1 + 1 / 2 ^ 53) * 100 * (1 + 1 / 2 ^ 53)"
    using y(2) by (intro mult_right_mono) simp_all
  also have "\<dots> \<le> e + e * (3 / 2 ^ 53)"
    unfolding ex using x0 by (simp add: algebra_simps)
  finally show "z \<le> e + e * (3 / 2 ^ 53)" .
qed

lemma percentageOf_alt:
  "percentageOf u = js_round (min (toDouble (toDouble (rat_of_int u / 80000) * 100)) 100)"
  by (simp add: percentageOf_def CONTEXT_LIMIT_def)

lemma percentageOf_near:
  assumes "0 \<le> u"
  shows "\<bar>rat_of_int (percentageOf u) - min (rat_of_int u / 80000 * 100) 100\<bar> \<le> 1 / 2"
proof -
  let ?e = "rat_of_int u / 800"
  let ?z = "toDouble (toDouble (rat_of_int u / 80000) * 100)"
  note b = double_quotient_bounds [OF assms]
  have ee: "rat_of_int u / 80000 * 100 = ?e" by simp
  show ?thesis
  proof (cases "80000 \<le> u")
    case True
    then have e: "100 \<le> ?e" by simp
    then have "100 - 100 * (2 / 2 ^ 53) \<le> ?e - ?e * (2 / 2 ^ 53)" by simp
    with b(1) have "100 - 100 * (2 / 2 ^ 53) \<le> ?z" by linarith
    then have m: "100 - 100 * (2 / 2 ^ 53) \<le> min ?z 100" "min ?z 100 \<le> 100" by simp_all
    have "js_round (min ?z 100) = 100"
      unfolding js_round_def using m by (intro floor_unique) simp_all
    then have "percentageOf u = 100" by (simp add: percentageOf_alt)
    moreover have "min ?e 100 = 100" using e by simp
    ultimately show ?thesis unfolding ee by simp
  next
    case False
    then have u: "u \<le> 79999" by simp
    then have e: "?e \<le> 79999 / 800" by simp
    have e0: "0 \<le> ?e" using assms by simp
    have eps: "?e * (3 / 2 ^ 53) \<le> 1 / 1600" "?e * (2 / 2 ^ 53) \<le> 1 / 1600"
      using e e0 by simp_all
    from b(2) eps(1) e have zlt: "?z < 100" by simp
    then have mz: "min ?z 100 = ?z" by simp
    have me: "min ?e 100 = ?e" using e by simp
    let ?j = "percentageOf u"
    have j: "rat_of_int ?j \<le> ?z + 1 / 2" "?z + 1 / 2 < rat_of_int ?j + 1"
      unfolding percentageOf_alt js_round_def mz by linarith+
    have "rat_of_int ?j \<le> ?e + 1 / 1600 + 1 / 2" using j(1) b(2) eps(1) by linarith
    then have "rat_of_int (800 * ?j) < rat_of_int (u + 400 + 1)" by simp
    then have "800 * ?j < u + 400 + 1" by (simp only: of_int_less_iff)
    then have up: "800 * ?j \<le> u + 400" by simp
    have "?e - 1 / 1600 - 1 / 2 < rat_of_int ?j" using j(2) b(1) eps(2) by linarith
    then have "rat_of_int (u - 400 - 1) < rat_of_int (800 * ?j)" by simp
    then have "u - 400 - 1 < 800 * ?j" by (simp only: of_int_less_iff)
    then have lo: "u - 400 \<le> 800 * ?j" by simp
    from up have "rat_of_int (800 * ?j) \<le> rat_of_int (u + 400)" by (simp only: of_int_le_iff)
    then have 1: "rat_of_int ?j \<le> ?e + 1 / 2" by simp
    from lo have "rat_of_int (u - 400) \<le> rat_of_int (800 * ?j)" by (simp only: of_int_le_iff)
    then have 2: "?e - 1 / 2 \<le> rat_of_int ?j" by simp
    show ?thesis unfolding ee me using 1 2 by linarith
  qed
qed

lemma js_add_safe: "\<bar>a + b\<bar> \<le> 2 ^ 53 \<Longrightarrow> js_add a b = a + b"
  by (simp only: js_add_def toDouble_of_int floor_of_int)

lemma percentage_unfold:
  "percentage (calculateContextUsage stats) = percentageOf (js_add (inputTokens stats) (outputTokens stats))"
  "used (calculateContextUsage stats) = js_add (inputTokens stats) (outputTokens stats)"
  by (simp_all add: calculateContextUsage_def Let_def)

lemma percentageOf_le_100: "percentageOf u \<le> 100"
proof -
  have "min (toDouble (toDouble (rat_of_int u / rat_of_int CONTEXT_LIMIT) * 100)) 100 + 1 / 2 < 101"
    by simp
  then show ?thesis unfolding percentageOf_def js_round_def by (simp add: floor_less_iff)
qed

text \<open>
  At the totals whose exact percentage ends in one half the double can lie just below it, and
  \<^verbatim>\<open>Math.round\<close> then rounds down.
\<close>

lemma percentageOf_values:
  "js_add 60000 8000 = 68000" "percentageOf 68000 = 85" "percentageOf 1000 = 1"
  "percentageOf 400 = 1" "percentageOf 67600 = 85"
  "percentageOf 11600 = 14" "percentageOf 22800 = 28" "percentageOf 45200 = 56"
  "percentageOf 46000 = 57"
  by code_simp+

lemma trim_values: "trim [] = []" "trim ''done'' = ''done''" "trim ''next'' = ''next''"
  by code_simp+

subsection \<open>Finding and updating a session\<close>

lemma findSession_id: "findSession sid ss = Some s \<Longrightarrow> s_id s = sid"
  unfolding findSession_def by (induction ss) (auto split: if_splits)

lemma findSession_updateSession:
  "(\<And>s. s_id (f s) = s_id s) \<Longrightarrow>
     findSession sid (updateSession sid f ss) = map_option f (findSession sid ss)"
  unfolding findSession_def by (induction ss) auto

lemma updateSession_twice:
  "(\<And>s. s_id (g s) = s_id s) \<Longrightarrow>
     updateSession sid f (updateSession sid g ss) = updateSession sid (\<lambda>s. f (g s)) ss"
  by (induction ss) auto

lemma getCurrentSession_find:
  "getCurrentSession p = Some cs \<Longrightarrow> findSession (s_id cs) (sessions p) = Some cs"
  by (auto simp: getCurrentSession_def split: option.splits if_splits dest: findSession_id)

lemma findSession_filter_other:
  "c \<noteq> sid \<Longrightarrow> findSession c (filter (\<lambda>s. s_id s \<noteq> sid) ss) = findSession c ss"
  unfolding findSession_def by (induction ss) auto

lemma findSession_first:
  "ss \<noteq> [] \<Longrightarrow> findSession (s_id (hd ss)) ss = Some (hd ss)"
  unfolding findSession_def by (cases ss) auto

lemma filter_same_id_le_1:
  "distinct (map s_id ss) \<Longrightarrow> length (filter (\<lambda>s. s_id s = sid) ss) \<le> 1"
proof (induction ss)
  case Nil
  then show ?case by simp
next
  case (Cons a ss)
  show ?case
  proof (cases "s_id a = sid")
    case True
    with Cons.prems have "sid \<notin> s_id ` set ss" by auto
    then have "filter (\<lambda>s. s_id s = sid) ss = []" by (auto simp: filter_empty_conv)
    with True show ?thesis by simp
  next
    case False
    with Cons show ?thesis by simp
  qed
qed

lemma filter_other_nonempty:
  assumes "distinct (map s_id ss)" and "length ss > 1"
  shows "filter (\<lambda>s. s_id s \<noteq> sid) ss \<noteq> []"
proof -
  have "length (filter (\<lambda>s. s_id s = sid) ss) + length (filter (\<lambda>s. \<not> s_id s = sid) ss) = length ss"
    by (rule sum_length_filter_compl)
  moreover have "length (filter (\<lambda>s. s_id s = sid) ss) \<le> 1"
    by (rule filter_same_id_le_1 [OF assms(1)])
  ultimately have "length (filter (\<lambda>s. s_id s \<noteq> sid) ss) > 0" using assms(2) by linarith
  then show ?thesis by simp
qed

subsection \<open>The result listener\<close>






subsection \<open>The contextUpdate listener\<close>

lemma cu_skip:
  "usage = None \<or> findSession sid (sessions (plugin w)) = None \<Longrightarrow> on_contextUpdate env sid usage w = w"
  by (auto simp: on_contextUpdate_def Let_def split: option.splits)

lemma cu_sessions:
  "findSession sid (sessions (plugin w)) = Some s \<Longrightarrow>
     sessions (plugin (on_contextUpdate env sid (Some u) w))
       = updateSession sid (\<lambda>x. x\<lparr>s_tokenStats := Some (applyUsage u (s_tokenStats s))\<rparr>) (sessions (plugin w))"
  by (simp add: on_contextUpdate_def Let_def addTokensToHistory_def saveSettings_def)

lemma cu_history_background:
  "Some sid \<noteq> activeSessionId (view w) \<Longrightarrow>
     tokenHistory (settings (plugin (on_contextUpdate env sid usage w))) = tokenHistory (settings (plugin w))"
  by (simp add: on_contextUpdate_def Let_def saveSettings_def split: option.splits)

lemma cu_history_foreground:
  "Some sid = activeSessionId (view w) \<Longrightarrow> findSession sid (sessions (plugin w)) = Some s \<Longrightarrow>
     tokenHistory (settings (plugin (on_contextUpdate env sid (Some u) w)))
       = (if orZero (input_tokens u) + orZero (output_tokens u) - lastRecordedTokens (view w) > 0
          then (tokenHistory (settings (plugin w)))
                 (today env \<mapsto> (case tokenHistory (settings (plugin w)) (today env) of None \<Rightarrow> 0 | Some v \<Rightarrow> v)
                    + (orZero (input_tokens u) + orZero (output_tokens u) - lastRecordedTokens (view w)))
          else tokenHistory (settings (plugin w)))"
  by (simp add: on_contextUpdate_def Let_def saveSettings_def addTokensToHistory_def applyUsage_def)

lemma cu_pending:
  "pendingAutoCompact (view (on_contextUpdate env sid usage w)) =
     (pendingAutoCompact (view w) \<or>
      (Some sid = activeSessionId (view w) \<and>
       (case usage of
          None \<Rightarrow> False
        | Some u \<Rightarrow>
            (case findSession sid (sessions (plugin w)) of
               None \<Rightarrow> False
             | Some s \<Rightarrow> 85 \<le> percentage (calculateContextUsage (applyUsage u (s_tokenStats s)))))))"
  by (auto simp: on_contextUpdate_def Let_def AUTO_COMPACT_THRESHOLD_PERCENT_def split: option.splits)

lemma applyUsage_idem: "applyUsage u (Some (applyUsage u old)) = applyUsage u old"
  by (simp add: applyUsage_def)

lemma cu_idem:
  "sessions (plugin (on_contextUpdate env' sid usage (on_contextUpdate env sid usage w)))
     = sessions (plugin (on_contextUpdate env sid usage w))"
proof (cases "usage = None \<or> findSession sid (sessions (plugin w)) = None")
  case True
  then show ?thesis by (simp add: cu_skip)
next
  case False
  then obtain u s where u: "usage = Some u" and s: "findSession sid (sessions (plugin w)) = Some s"
    by auto
  let ?f = "\<lambda>x. x\<lparr>s_tokenStats := Some (applyUsage u (s_tokenStats s))\<rparr>"
  have 1: "sessions (plugin (on_contextUpdate env sid usage w)) = updateSession sid ?f (sessions (plugin w))"
    unfolding u by (rule cu_sessions [OF s])
  have 2: "findSession sid (sessions (plugin (on_contextUpdate env sid usage w))) = Some (?f s)"
    unfolding 1 by (simp add: findSession_updateSession s)
  have "sessions (plugin (on_contextUpdate env' sid usage (on_contextUpdate env sid usage w)))
          = updateSession sid (\<lambda>x. x\<lparr>s_tokenStats := Some (applyUsage u (s_tokenStats (?f s)))\<rparr>)
              (sessions (plugin (on_contextUpdate env sid usage w)))"
    unfolding u using 2 [unfolded u] by (rule cu_sessions)
  also have "\<dots> = updateSession sid ?f (sessions (plugin w))"
    unfolding 1 by (simp add: updateSession_twice applyUsage_idem)
  finally show ?thesis by (simp only: 1)
qed

subsection \<open>Deleting a session\<close>

lemma plugin_loadSession: "plugin (loadSession s w) = plugin w"
  by (simp add: loadSession_def Let_def)

lemma deleteSession_sessions:
  "sessions (deleteSession sid p) = filter (\<lambda>s. s_id s \<noteq> sid) (sessions p)"
  by (simp add: deleteSession_def Let_def saveSettings_def)

lemma deleteSession_current:
  "currentSessionId (deleteSession sid p) =
     (if currentSessionId p = Some sid then firstSessionId (filter (\<lambda>s. s_id s \<noteq> sid) (sessions p))
      else currentSessionId p)"
  by (simp add: deleteSession_def Let_def saveSettings_def)

lemma deleteSession_valid:
  assumes d: "distinct (map s_id (sessions p))"
      and ne: "[] \<notin> s_id ` set (sessions p)"
      and len: "length (sessions p) > 1"
      and cur: "getCurrentSession p \<noteq> None"
  shows "sessions (deleteSession sid p) \<noteq> []"
    and "getCurrentSession (deleteSession sid p) \<noteq> None"
    and "currentSessionId p = Some sid \<Longrightarrow>
           currentSessionId (deleteSession sid p) = Some (s_id (hd (sessions (deleteSession sid p))))"
proof -
  let ?ss = "filter (\<lambda>s. s_id s \<noteq> sid) (sessions p)"
  show nonempty: "sessions (deleteSession sid p) \<noteq> []"
    unfolding deleteSession_sessions by (rule filter_other_nonempty [OF d len])
  then have ss: "?ss \<noteq> []" by (simp add: deleteSession_sessions)
  then have "hd ?ss \<in> set (sessions p)"
    by (metis (no_types, lifting) filter_is_subset hd_in_set subsetD)
  with ne have hdne: "s_id (hd ?ss) \<noteq> []" by (metis imageI)
  have first: "firstSessionId ?ss = Some (s_id (hd ?ss))"
    using ss hdne by (cases ?ss) (simp_all add: firstSessionId_def)
  show "currentSessionId (deleteSession sid p) = Some (s_id (hd (sessions (deleteSession sid p))))"
    if "currentSessionId p = Some sid"
    using that first by (simp add: deleteSession_current deleteSession_sessions)
  show "getCurrentSession (deleteSession sid p) \<noteq> None"
  proof (cases "currentSessionId p = Some sid")
    case True
    then have "currentSessionId (deleteSession sid p) = Some (s_id (hd ?ss))"
      using first by (simp add: deleteSession_current)
    then show ?thesis
      using hdne findSession_first [OF ss]
      by (simp add: getCurrentSession_def deleteSession_sessions)
  next
    case False
    from cur obtain c where c: "currentSessionId p = Some c" "c \<noteq> []"
      "findSession c (sessions p) \<noteq> None"
      by (auto simp: getCurrentSession_def split: option.splits if_splits)
    with False have "c \<noteq> sid" by simp
    then show ?thesis using c False
      by (simp add: getCurrentSession_def deleteSession_current deleteSession_sessions
          findSession_filter_other)
  qed
qed

subsection \<open>What the listeners leave alone\<close>

lemma saveCurrentSession_keeps:
  "service (saveCurrentSession w) = service w"
  "summaryListeners (view (saveCurrentSession w)) = summaryListeners (view w)"
  "pendingAutoCompact (view (saveCurrentSession w)) = pendingAutoCompact (view w)"
  "compactOverlay (view (saveCurrentSession w)) = compactOverlay (view w)"
  "activeSessionId (view (saveCurrentSession w)) = activeSessionId (view w)"
  "messages (view (saveCurrentSession w)) = messages (view w)"
  by (simp_all add: saveCurrentSession_def Let_def)

lemma pushViewMessage_keeps:
  "service (pushViewMessage m w) = service w"
  "summaryListeners (view (pushViewMessage m w)) = summaryListeners (view w)"
  "pendingAutoCompact (view (pushViewMessage m w)) = pendingAutoCompact (view w)"
  "compactOverlay (view (pushViewMessage m w)) = compactOverlay (view w)"
  "activeSessionId (view (pushViewMessage m w)) = activeSessionId (view w)"
  "messages (view (pushViewMessage m w)) = messages (view w) @ [m]"
  by (simp_all add: pushViewMessage_def Let_def split: option.splits)

lemma finalize_keeps:
  "service (finalizeAssistantMessage u t w) = service w"
  "summaryListeners (view (finalizeAssistantMessage u t w)) = summaryListeners (view w)"
  "pendingAutoCompact (view (finalizeAssistantMessage u t w)) = pendingAutoCompact (view w)"
  "compactOverlay (view (finalizeAssistantMessage u t w)) = compactOverlay (view w)"
  "activeSessionId (view (finalizeAssistantMessage u t w)) = activeSessionId (view w)"
  by (simp_all add: finalizeAssistantMessage_def Let_def saveCurrentSession_keeps pushViewMessage_keeps)

lemma saveToolSteps_keeps:
  "service (saveToolStepsAsMessage u t w) = service w"
  "summaryListeners (view (saveToolStepsAsMessage u t w)) = summaryListeners (view w)"
  "pendingAutoCompact (view (saveToolStepsAsMessage u t w)) = pendingAutoCompact (view w)"
  "compactOverlay (view (saveToolStepsAsMessage u t w)) = compactOverlay (view w)"
  by (simp_all add: saveToolStepsAsMessage_def Let_def saveCurrentSession_keeps pushViewMessage_keeps)

lemma saveText_keeps:
  "service (saveTextAsMessage u t w) = service w"
  "summaryListeners (view (saveTextAsMessage u t w)) = summaryListeners (view w)"
  "pendingAutoCompact (view (saveTextAsMessage u t w)) = pendingAutoCompact (view w)"
  "compactOverlay (view (saveTextAsMessage u t w)) = compactOverlay (view w)"
  by (simp_all add: saveTextAsMessage_def Let_def saveCurrentSession_keeps pushViewMessage_keeps)

lemma on_streaming_keeps:
  "service (on_streaming env sid txt w) = service w"
  "summaryListeners (view (on_streaming env sid txt w)) = summaryListeners (view w)"
  "pendingAutoCompact (view (on_streaming env sid txt w)) = pendingAutoCompact (view w)"
  "compactOverlay (view (on_streaming env sid txt w)) = compactOverlay (view w)"
  by (simp_all add: on_streaming_def setStatus_def updateAssistantMessage_def Let_def
      createStreamingTextElement_def saveToolSteps_keeps)

lemma on_toolUse_keeps:
  "service (on_toolUse env sid tool w) = service w"
  "summaryListeners (view (on_toolUse env sid tool w)) = summaryListeners (view w)"
  "pendingAutoCompact (view (on_toolUse env sid tool w)) = pendingAutoCompact (view w)"
  "compactOverlay (view (on_toolUse env sid tool w)) = compactOverlay (view w)"
  by (simp_all add: on_toolUse_def addToolStep_def Let_def saveText_keeps)

lemma on_error_keeps:
  "service (on_error env sid err w) = service w"
  "summaryListeners (view (on_error env sid err w)) = summaryListeners (view w)"
  "pendingAutoCompact (view (on_error env sid err w)) = pendingAutoCompact (view w)"
  "compactOverlay (view (on_error env sid err w)) = compactOverlay (view w)"
  by (simp_all add: on_error_def setStatus_def finalize_keeps)

lemma updateAssistantMessage_keeps:
  "service (updateAssistantMessage u t txt w) = service w"
  "summaryListeners (view (updateAssistantMessage u t txt w)) = summaryListeners (view w)"
  "pendingAutoCompact (view (updateAssistantMessage u t txt w)) = pendingAutoCompact (view w)"
  "compactOverlay (view (updateAssistantMessage u t txt w)) = compactOverlay (view w)"
  by (simp_all add: updateAssistantMessage_def Let_def createStreamingTextElement_def saveToolSteps_keeps)

lemma on_assistant_keeps:
  "service (on_assistant env sid content w) = service w"
  "summaryListeners (view (on_assistant env sid content w)) = summaryListeners (view w)"
  "pendingAutoCompact (view (on_assistant env sid content w)) = pendingAutoCompact (view w)"
  "compactOverlay (view (on_assistant env sid content w)) = compactOverlay (view w)"
  by (simp_all add: on_assistant_def updateAssistantMessage_keeps)

lemma on_rateLimitError_keeps:
  "service (on_rateLimitError env sid w) = service w"
  "summaryListeners (view (on_rateLimitError env sid w)) = summaryListeners (view w)"
  "pendingAutoCompact (view (on_rateLimitError env sid w)) = pendingAutoCompact (view w)"
  "compactOverlay (view (on_rateLimitError env sid w)) = compactOverlay (view w)"
  by (simp_all add: on_rateLimitError_def setStatus_def setInputEnabled_def finalize_keeps)

lemma result_persist_keeps:
  "sent (service (result_persist env sid w)) = sent (service w)"
  "summaryListeners (view (result_persist env sid w)) = summaryListeners (view w)"
  "pendingAutoCompact (view (result_persist env sid w)) = pendingAutoCompact (view w)"
  "compactOverlay (view (result_persist env sid w)) = compactOverlay (view w)"
  by (simp_all add: result_persist_def Let_def pushSessionMessage_def clearPendingMessage_def
      split: option.splits)

lemma on_result_keeps:
  "sent (service (on_result env sid e txt w)) = sent (service w)"
  "summaryListeners (view (on_result env sid e txt w)) = summaryListeners (view w)"
  "pendingAutoCompact (view (on_result env sid e txt w)) = pendingAutoCompact (view w)"
  "compactOverlay (view (on_result env sid e txt w)) = compactOverlay (view w)"
  by (simp_all add: on_result_def Let_def setStatus_def finalize_keeps result_persist_keeps)

lemma on_contextUpdate_keeps:
  "service (on_contextUpdate env sid usage w) = service w"
  "summaryListeners (view (on_contextUpdate env sid usage w)) = summaryListeners (view w)"
  "compactOverlay (view (on_contextUpdate env sid usage w)) = compactOverlay (view w)"
  by (simp_all add: on_contextUpdate_def Let_def split: option.splits)

subsection \<open>Compaction\<close>

lemma runCompact_flag:
  "pendingAutoCompact (view (runCompact u oc w)) = pendingAutoCompact (view w)"
  by (simp add: runCompact_def Let_def closeContextPopup_def showCompactAnimation_def
      hideCompactAnimation_def setInputEnabled_def service_sendMessage_def split: SendOutcome.splits)

lemma runCompact_listeners:
  "summaryListeners (view (runCompact u oc w)) =
     summaryListeners (view w) @
       (if messages (view w) = [] then []
        else [\<lparr>summarySessionId = ''summary-'' @ u, summary = [], streamingAttached = True\<rparr>])"
  by (simp add: runCompact_def Let_def closeContextPopup_def showCompactAnimation_def
      hideCompactAnimation_def setInputEnabled_def service_sendMessage_def split: SendOutcome.splits)

lemma runCompact_sent:
  "sent (service (runCompact u oc w)) =
     sent (service w) @
       (if messages (view w) = [] \<or> oc = Threw then []
        else [\<lparr>r_prompt = summaryPrompt (messages (view w)), r_sessionId = ''summary-'' @ u,
               r_resumeToken = None, r_model = currentModel (view w)\<rparr>])"
  by (simp add: runCompact_def Let_def closeContextPopup_def showCompactAnimation_def
      hideCompactAnimation_def setInputEnabled_def service_sendMessage_def split: SendOutcome.splits)

lemma on_complete_background:
  "Some sid \<noteq> activeSessionId (view w) \<Longrightarrow> on_complete env sid code w = w"
  by (simp add: on_complete_def Let_def)

lemma on_complete_flag:
  "pendingAutoCompact (view (on_complete env sid code w))
     = (pendingAutoCompact (view w) \<and> Some sid \<noteq> activeSessionId (view w))"
  by (simp add: on_complete_def Let_def runCompact_flag setInputEnabled_def finalize_keeps)

lemma on_complete_listeners:
  "summaryListeners (view (on_complete env sid code w)) =
     summaryListeners (view w) @
       (if Some sid = activeSessionId (view w) \<and> pendingAutoCompact (view w)
           \<and> messages (view (finalizeAssistantMessage (uuid1 env) (now env) w)) \<noteq> []
        then [\<lparr>summarySessionId = ''summary-'' @ uuid2 env, summary = [], streamingAttached = True\<rparr>]
        else [])"
  by (simp add: on_complete_def Let_def runCompact_listeners setInputEnabled_def finalize_keeps)

lemma on_complete_sent:
  "sent (service (on_complete env sid code w)) =
     sent (service w) @
       (if Some sid = activeSessionId (view w) \<and> pendingAutoCompact (view w)
           \<and> messages (view (finalizeAssistantMessage (uuid1 env) (now env) w)) \<noteq> []
           \<and> sendOutcome env = Spawned
        then [\<lparr>r_prompt = summaryPrompt (messages (view (finalizeAssistantMessage (uuid1 env) (now env) w))),
               r_sessionId = ''summary-'' @ uuid2 env, r_resumeToken = None,
               r_model = currentModel (view (finalizeAssistantMessage (uuid1 env) (now env) w))\<rparr>]
        else [])"
  by (cases "sendOutcome env")
     (simp_all add: on_complete_def Let_def runCompact_sent setInputEnabled_def finalize_keeps)

lemma finishCompact_current:
  assumes "getCurrentSession (plugin w) = Some cs"
  shows "findSession (s_id cs) (sessions (plugin (finishCompact summ w))) = Some (cs\<lparr>s_cliSessionId := None\<rparr>)"
    and "getCliSessionId (service (finishCompact summ w)) (s_id cs) = None"
    and "compactSummary (view (finishCompact summ w)) = Some summ"
    and "sessionStarted (view (finishCompact summ w)) = False"
    and "savedData (plugin (finishCompact summ w))
           = Some \<lparr>d_settings = settings (plugin w),
                   d_sessions = take MAX_SESSIONS (sessions (plugin (finishCompact summ w))),
                   d_currentSessionId = currentSessionId (plugin w)\<rparr>"
  using assms getCurrentSession_find [OF assms]
  by (simp_all add: finishCompact_def Let_def hideCompactAnimation_def setInputEnabled_def
      clearSession_def getCliSessionId_def saveSettings_def findSession_updateSession)

lemma finishCompact_always:
  "tokenStats (view (finishCompact summ w))
     = initialTokenStats\<lparr>compactCount := compactCount (tokenStats (view w)) + 1\<rparr>"
  "messages (view (finishCompact summ w)) = messages (view w)"
  "isGenerating (view (finishCompact summ w)) = False"
  "compactOverlay (view (finishCompact summ w)) = False"
  by (simp_all add: finishCompact_def Let_def hideCompactAnimation_def setInputEnabled_def
      split: option.splits)

lemma finishCompact_no_current:
  "getCurrentSession (plugin w) = None \<Longrightarrow>
     plugin (finishCompact summ w) = plugin w \<and> service (finishCompact summ w) = service w
     \<and> compactSummary (view (finishCompact summ w)) = compactSummary (view w)
     \<and> sessionStarted (view (finishCompact summ w)) = sessionStarted (view w)"
  by (simp add: finishCompact_def Let_def hideCompactAnimation_def setInputEnabled_def)

lemma runCompact_empty:
  "messages (view w) = [] \<Longrightarrow> runCompact u oc w = closeContextPopup w"
  by (simp add: runCompact_def Let_def closeContextPopup_def)

lemma runCompact_threw:
  "plugin (runCompact u Threw w) = plugin w"
  "service (runCompact u Threw w) = service w"
  "messages (view w) \<noteq> [] \<Longrightarrow> isGenerating (view (runCompact u Threw w)) = False"
  "tokenStats (view (runCompact u Threw w)) = tokenStats (view w)"
  "compactSummary (view (runCompact u Threw w)) = compactSummary (view w)"
  by (simp_all add: runCompact_def Let_def closeContextPopup_def showCompactAnimation_def
      hideCompactAnimation_def setInputEnabled_def service_sendMessage_def)

lemma prepend_not_first: "prependCompactSummary False p w = (p, w)"
  by (simp add: prependCompactSummary_def split: option.splits)

lemma summary_not_prepended_after_compaction:
  "messages (view w) \<noteq> [] \<Longrightarrow>
     prependCompactSummary (length (messages (view (finishCompact summ w))) = 0) p (finishCompact summ w)
       = (p, finishCompact summ w)"
  by (simp add: finishCompact_always prepend_not_first)

section \<open>Saving results and rendering streams (C1)\<close>




section \<open>Context usage (C2)\<close>

text \<open>
  C2, with the rounding the code applies: when the total of input and output tokens is not
  negative and at most \<open>2 ^ 53\<close>, the usage counts that total and the percentage, an integer,
  is within one half of \<open>min (used / 80000 * 100) 100\<close>. For all statistics the limit is 80000
  whatever the nominal window, the percentage is \<^verbatim>\<open>Math.round\<close> of the minimum of 100 and the
  double \<open>used / 80000 * 100\<close>, it is at most 100 and does not depend on the nominal window; 60000
  input and 8000 output tokens give 68000 used and 85 percent.
\<close>

theorem calculateContextUsage_rounded:
  assumes "0 \<le> inputTokens stats + outputTokens stats"
      and "inputTokens stats + outputTokens stats \<le> 2 ^ 53"
  shows "used (calculateContextUsage stats) = inputTokens stats + outputTokens stats
   \<and> \<bar>rat_of_int (percentage (calculateContextUsage stats))
        - min (rat_of_int (inputTokens stats + outputTokens stats) / 80000 * 100) 100\<bar> \<le> 1 / 2
   \<and> percentage (calculateContextUsage stats)
       = js_round (min (toDouble (toDouble (rat_of_int (used (calculateContextUsage stats)) / 80000) * 100)) 100)
   \<and> limit (calculateContextUsage stats) = 80000
   \<and> nominal (calculateContextUsage stats) = contextWindow stats
   \<and> percentage (calculateContextUsage stats) \<le> 100
   \<and> percentage (calculateContextUsage (stats\<lparr>contextWindow := cw\<rparr>)) = percentage (calculateContextUsage stats)
   \<and> limit (calculateContextUsage (stats\<lparr>contextWindow := cw\<rparr>)) = limit (calculateContextUsage stats)
   \<and> used (calculateContextUsage (stats\<lparr>inputTokens := 60000, outputTokens := 8000\<rparr>)) = 68000
   \<and> percentage (calculateContextUsage (stats\<lparr>inputTokens := 60000, outputTokens := 8000\<rparr>)) = 85"
proof -
  have safe: "\<bar>inputTokens stats + outputTokens stats\<bar> \<le> 2 ^ 53"
    using assms by simp
  have u: "used (calculateContextUsage stats) = inputTokens stats + outputTokens stats"
    by (simp add: percentage_unfold js_add_safe [OF safe])
  have n: "\<bar>rat_of_int (percentage (calculateContextUsage stats))
        - min (rat_of_int (inputTokens stats + outputTokens stats) / 80000 * 100) 100\<bar> \<le> 1 / 2"
    unfolding percentage_unfold js_add_safe [OF safe] by (rule percentageOf_near [OF assms(1)])
  have p: "percentage (calculateContextUsage stats)
       = js_round (min (toDouble (toDouble (rat_of_int (used (calculateContextUsage stats)) / 80000) * 100)) 100)"
    by (simp add: percentage_unfold percentageOf_alt)
  have le: "percentage (calculateContextUsage stats) \<le> 100"
    unfolding percentage_unfold by (rule percentageOf_le_100)
  have s: "used (calculateContextUsage (stats\<lparr>inputTokens := 60000, outputTokens := 8000\<rparr>)) = 68000"
    "percentage (calculateContextUsage (stats\<lparr>inputTokens := 60000, outputTokens := 8000\<rparr>)) = 85"
    by (simp_all add: percentage_unfold percentageOf_values)
  have rest: "limit (calculateContextUsage stats) = 80000"
    "nominal (calculateContextUsage stats) = contextWindow stats"
    "percentage (calculateContextUsage (stats\<lparr>contextWindow := cw\<rparr>)) = percentage (calculateContextUsage stats)"
    "limit (calculateContextUsage (stats\<lparr>contextWindow := cw\<rparr>)) = limit (calculateContextUsage stats)"
    by (simp_all add: calculateContextUsage_def CONTEXT_LIMIT_def Let_def)
  show ?thesis by (intro conjI u n p le s rest)
qed

theorem calculateContextUsage_rounded_witness:
  "0 \<le> inputTokens exStats + outputTokens exStats
   \<and> inputTokens exStats + outputTokens exStats \<le> 2 ^ 53
   \<and> used (calculateContextUsage exStats) = inputTokens exStats + outputTokens exStats
   \<and> \<bar>rat_of_int (percentage (calculateContextUsage exStats))
        - min (rat_of_int (inputTokens exStats + outputTokens exStats) / 80000 * 100) 100\<bar> \<le> 1 / 2
   \<and> percentage (calculateContextUsage exStats) \<le> 100"
proof -
  have h: "0 \<le> inputTokens exStats + outputTokens exStats"
    "inputTokens exStats + outputTokens exStats \<le> 2 ^ 53"
    by (simp_all add: exStats_def)
  from calculateContextUsage_rounded [OF h, of 200000] h show ?thesis
    by blast
qed

text \<open>
  Without the rounding the statement fails: 1000 tokens are 1.25 percent of the limit, the code
  reports 1.
\<close>

theorem C2_counterexample:
  "rat_of_int (percentage (calculateContextUsage (initialTokenStats\<lparr>inputTokens := 1000, outputTokens := 0\<rparr>)))
     \<noteq> min (rat_of_int (used (calculateContextUsage (initialTokenStats\<lparr>inputTokens := 1000, outputTokens := 0\<rparr>))) / 80000 * 100) 100"
proof -
  have "js_add 1000 0 = 1000" by (simp add: js_add_safe)
  then show ?thesis
    by (simp add: percentage_unfold percentageOf_values initialTokenStats_def)
qed

section \<open>Flagging and running auto-compaction (C3)\<close>

text \<open>
  C3, for the single flag the view keeps: a ContextUpdate event leaves the flag set exactly when
  it was set before, or the event is for the displayed session, carries usage, names a stored
  session and brings the rounded percentage to 85 or more. The listeners for contextUpdate,
  streaming, toolUse, result, error, assistant and rateLimitError start no compaction, and all
  but the first leave the flag as it is. The complete listener starts the compaction exactly when the event is for the
  displayed session, the flag is set and there are messages; it leaves the flag cleared for the
  displayed session.
\<close>

theorem autoCompact_flag_and_trigger:
  "pendingAutoCompact (view (on_contextUpdate env sid usage w)) =
     (pendingAutoCompact (view w) \<or>
      (Some sid = activeSessionId (view w) \<and>
       (case usage of
          None \<Rightarrow> False
        | Some u \<Rightarrow>
            (case findSession sid (sessions (plugin w)) of
               None \<Rightarrow> False
             | Some s \<Rightarrow> 85 \<le> percentage (calculateContextUsage (applyUsage u (s_tokenStats s)))))))
   \<and> summaryListeners (view (on_contextUpdate env sid usage w)) = summaryListeners (view w)
   \<and> sent (service (on_contextUpdate env sid usage w)) = sent (service w)
   \<and> summaryListeners (view (on_streaming env sid text w)) = summaryListeners (view w)
   \<and> sent (service (on_streaming env sid text w)) = sent (service w)
   \<and> pendingAutoCompact (view (on_streaming env sid text w)) = pendingAutoCompact (view w)
   \<and> summaryListeners (view (on_toolUse env sid tool w)) = summaryListeners (view w)
   \<and> sent (service (on_toolUse env sid tool w)) = sent (service w)
   \<and> pendingAutoCompact (view (on_toolUse env sid tool w)) = pendingAutoCompact (view w)
   \<and> summaryListeners (view (on_result env sid is_error resultText w)) = summaryListeners (view w)
   \<and> sent (service (on_result env sid is_error resultText w)) = sent (service w)
   \<and> pendingAutoCompact (view (on_result env sid is_error resultText w)) = pendingAutoCompact (view w)
   \<and> summaryListeners (view (on_error env sid err w)) = summaryListeners (view w)
   \<and> sent (service (on_error env sid err w)) = sent (service w)
   \<and> pendingAutoCompact (view (on_error env sid err w)) = pendingAutoCompact (view w)
   \<and> summaryListeners (view (on_assistant env sid content w)) = summaryListeners (view w)
   \<and> sent (service (on_assistant env sid content w)) = sent (service w)
   \<and> pendingAutoCompact (view (on_assistant env sid content w)) = pendingAutoCompact (view w)
   \<and> summaryListeners (view (on_rateLimitError env sid w)) = summaryListeners (view w)
   \<and> sent (service (on_rateLimitError env sid w)) = sent (service w)
   \<and> pendingAutoCompact (view (on_rateLimitError env sid w)) = pendingAutoCompact (view w)
   \<and> summaryListeners (view (on_complete env sid code w)) =
       summaryListeners (view w) @
         (if Some sid = activeSessionId (view w) \<and> pendingAutoCompact (view w)
             \<and> messages (view (finalizeAssistantMessage (uuid1 env) (now env) w)) \<noteq> []
          then [\<lparr>summarySessionId = ''summary-'' @ uuid2 env, summary = [], streamingAttached = True\<rparr>]
          else [])
   \<and> sent (service (on_complete env sid code w)) =
       sent (service w) @
         (if Some sid = activeSessionId (view w) \<and> pendingAutoCompact (view w)
             \<and> messages (view (finalizeAssistantMessage (uuid1 env) (now env) w)) \<noteq> []
             \<and> sendOutcome env = Spawned
          then [\<lparr>r_prompt = summaryPrompt (messages (view (finalizeAssistantMessage (uuid1 env) (now env) w))),
                 r_sessionId = ''summary-'' @ uuid2 env, r_resumeToken = None,
                 r_model = currentModel (view (finalizeAssistantMessage (uuid1 env) (now env) w))\<rparr>]
          else [])
   \<and> pendingAutoCompact (view (on_complete env sid code w))
       = (pendingAutoCompact (view w) \<and> Some sid \<noteq> activeSessionId (view w))"
  by (intro conjI cu_pending on_contextUpdate_keeps on_streaming_keeps on_toolUse_keeps
      on_result_keeps on_error_keeps on_assistant_keeps on_rateLimitError_keeps
      on_complete_listeners on_complete_sent on_complete_flag)
     (simp_all add: on_contextUpdate_keeps on_streaming_keeps on_toolUse_keeps on_error_keeps
        on_assistant_keeps on_rateLimitError_keeps)

text \<open>
  The specification speaks of the flag of any session. A background session that reaches 85 percent
  while nothing is pending is not flagged.
\<close>

theorem C3_counterexample:
  "activeSessionId (view exWorld) = Some ''a''
   \<and> findSession ''b'' (sessions (plugin exWorld)) = Some exSessionB
   \<and> \<not> pendingAutoCompact (view exWorld)
   \<and> map_option (map_option (\<lambda>t. percentage (calculateContextUsage t)) \<circ> s_tokenStats)
        (findSession ''b'' (sessions (plugin (on_contextUpdate exEnv ''b'' (Some exUsage85) exWorld))))
       = Some (Some 85)
   \<and> \<not> pendingAutoCompact (view (on_contextUpdate exEnv ''b'' (Some exUsage85) exWorld))"
proof -
  have h: "findSession ''b'' (sessions (plugin exWorld)) = Some exSessionB"
    by (simp add: ex_defs findSession_def)
  have p: "percentage (calculateContextUsage (applyUsage exUsage85 None)) = 85"
    by (simp add: percentage_unfold percentageOf_values applyUsage_def exUsage85_def orZero_def
        initialTokenStats_def)
  have s: "s_tokenStats exSessionB = None" by (simp add: ex_defs)
  have a: "activeSessionId (view exWorld) = Some ''a''" "\<not> pendingAutoCompact (view exWorld)"
    by (simp_all add: ex_defs)
  show ?thesis
    using h a by (simp add: cu_pending cu_sessions [OF h] findSession_updateSession s p)
qed

section \<open>A failing summarization turn (C4)\<close>

text \<open>
  C4 does not hold of the code. The only failure that abandons the compaction is an exception
  from \<^verbatim>\<open>sendMessage\<close> (lemma \<open>runCompact_threw\<close>). When the summarization process
  fails and exits, the error event changes nothing, input stays disabled, and the Complete
  event with exit code 1 runs \<^verbatim>\<open>finishCompact\<close> with the empty summary: the resume token of
  session \<open>a\<close> is cleared in the session and in the service, the empty summary is stored
  and the compaction counter goes up.
\<close>

theorem C4_failed_summary_turn_finishes_compaction:
  "map_option s_cliSessionId (findSession ''a'' (sessions (plugin exWorld))) = Some (Some ''cli-a'')
   \<and> on_error exEnv ''summary-x'' ''exit 1'' (runCompact ''x'' Spawned exWorld)
        = runCompact ''x'' Spawned exWorld
   \<and> isGenerating (view (runCompact ''x'' Spawned exWorld))
   \<and> map_option s_cliSessionId (findSession ''a'' (sessions (plugin
        (emit_complete exEnv ''summary-x'' (Some 1) (runCompact ''x'' Spawned exWorld))))) = Some None
   \<and> getCliSessionId (service
        (emit_complete exEnv ''summary-x'' (Some 1) (runCompact ''x'' Spawned exWorld))) ''a'' = None
   \<and> compactSummary (view
        (emit_complete exEnv ''summary-x'' (Some 1) (runCompact ''x'' Spawned exWorld))) = Some []
   \<and> compactCount (tokenStats (view
        (emit_complete exEnv ''summary-x'' (Some 1) (runCompact ''x'' Spawned exWorld)))) = 1"
  by (simp add: ex_defs runCompact_def Let_def closeContextPopup_def
        showCompactAnimation_def setInputEnabled_def service_sendMessage_def
        emit_complete_def on_complete_def on_error_def onComplete_def finishCompact_def
        hideCompactAnimation_def getCurrentSession_def findSession_def clearSession_def
        getCliSessionId_def saveSettings_def initialTokenStats_def)

section \<open>Finishing a compaction (C5)\<close>

text \<open>
  What \<^verbatim>\<open>finishCompact\<close> does with the summary it is given, when there is a current session.
\<close>

lemma finishCompact_given_summary:
  assumes "getCurrentSession (plugin w) = Some cs"
  shows "findSession (s_id cs) (sessions (plugin (finishCompact summ w)))
           = Some (cs\<lparr>s_cliSessionId := None\<rparr>)
       \<and> getCliSessionId (service (finishCompact summ w)) (s_id cs) = None
       \<and> compactSummary (view (finishCompact summ w)) = Some summ
       \<and> tokenStats (view (finishCompact summ w))
           = \<lparr>inputTokens = 0, outputTokens = 0, contextWindow = 200000, cacheReadTokens = 0,
              compactCount = compactCount (tokenStats (view w)) + 1, lastCompactPreTokens = None\<rparr>
       \<and> sessionStarted (view (finishCompact summ w)) = False
       \<and> messages (view (finishCompact summ w)) = messages (view w)
       \<and> isGenerating (view (finishCompact summ w)) = False"
  using finishCompact_current [OF assms, of summ] finishCompact_always [of summ w]
  by (simp add: initialTokenStats_def)

text \<open>
  C5 does not hold of the code. Session \<open>a\<close> is compacted; the summarization turn streams its
  text in two events, \<open>He\<close> and then \<open>Hello\<close> (each the text so far), and completes. The
  resume token is cleared, the model selector is unlocked and the compaction counter of the
  view is 1, but the stored summary is \<open>HeHello\<close>, the texts of the events one after the other;
  the pre-compaction total of 68000 is not recorded and the statistics stored in the session
  are not reset. The next message of the user goes out as it is, without the summary and
  without a resume token, because the visible messages are kept and the summary is prepended
  only to the first message of an empty list; the summary stays stored and unused.
\<close>

theorem C5_summary_garbled_and_never_sent:
  "compactSummary (view exCompactedWorld) = Some ''HeHello''
   \<and> map_option s_cliSessionId (findSession ''a'' (sessions (plugin exCompactedWorld))) = Some None
   \<and> getCliSessionId (service exCompactedWorld) ''a'' = None
   \<and> \<not> sessionStarted (view exCompactedWorld)
   \<and> inputTokens (tokenStats (view exWorld)) + outputTokens (tokenStats (view exWorld)) = 68000
   \<and> tokenStats (view exCompactedWorld)
       = \<lparr>inputTokens = 0, outputTokens = 0, contextWindow = 200000, cacheReadTokens = 0,
          compactCount = 1, lastCompactPreTokens = None\<rparr>
   \<and> map_option s_tokenStats (findSession ''a'' (sessions (plugin exCompactedWorld)))
       = Some (Some exStats)
   \<and> messages (view exCompactedWorld) = [exUserMsg, exAssistantMsg]
   \<and> length (sent (service (sendMessage exEnv exNextInput exCompactedWorld))) = 2
   \<and> last (sent (service (sendMessage exEnv exNextInput exCompactedWorld)))
       = \<lparr>r_prompt = ''next'', r_sessionId = ''a'', r_resumeToken = None, r_model = Haiku45\<rparr>
   \<and> compactSummary (view (sendMessage exEnv exNextInput exCompactedWorld)) = Some ''HeHello''"
  by (simp add: exCompactedWorld_def exNextInput_def ex_defs runCompact_def Let_def
        closeContextPopup_def showCompactAnimation_def setInputEnabled_def service_sendMessage_def
        emit_streaming_def on_streaming_def onStreaming_def
        emit_complete_def on_complete_def onComplete_def finishCompact_def
        hideCompactAnimation_def getCurrentSession_def findSession_def clearSession_def
        getCliSessionId_def saveSettings_def initialTokenStats_def
        sendMessage_def trim_values addUserMessage_def pushViewMessage_def setStatus_def
        prepareAssistantMessage_def prependCompactSummary_def)

section \<open>Compaction without messages (C6)\<close>

text \<open>
  C6, for the check the code makes: running the compaction while the view has no message only
  closes the context popup; no request is issued, no listener is registered, plugin and
  service are untouched.
\<close>

theorem runCompact_noop_on_empty:
  assumes "messages (view w) = []"
  shows "runCompact uuid outcome w = closeContextPopup w
       \<and> plugin (runCompact uuid outcome w) = plugin w
       \<and> service (runCompact uuid outcome w) = service w
       \<and> summaryListeners (view (runCompact uuid outcome w)) = summaryListeners (view w)
       \<and> isGenerating (view (runCompact uuid outcome w)) = isGenerating (view w)"
  by (simp add: runCompact_empty [OF assms] closeContextPopup_def)

theorem runCompact_noop_on_empty_witness:
  "messages (view exEmptyWorld) = []
   \<and> runCompact ''x'' Spawned exEmptyWorld = closeContextPopup exEmptyWorld
   \<and> sent (service (runCompact ''x'' Spawned exEmptyWorld)) = []"
proof -
  have h: "messages (view exEmptyWorld) = []"
    by (simp add: exEmptyWorld_def ex_defs)
  have e: "sent (service exEmptyWorld) = []"
    by (simp add: exEmptyWorld_def ex_defs)
  from runCompact_noop_on_empty [OF h, of "''x''" Spawned] h show ?thesis
    by (simp add: e closeContextPopup_def)
qed

text \<open>
  With exactly one message, of role user, the compaction runs: the summarization request is
  sent and input is disabled.
\<close>

theorem C6_counterexample:
  "messages (view exOneUserWorld) = [exUserMsg] \<and> m_role exUserMsg = User
   \<and> sent (service (runCompact ''x'' Spawned exOneUserWorld))
       = [\<lparr>r_prompt = summaryPrompt [exUserMsg], r_sessionId = ''summary-x'',
           r_resumeToken = None, r_model = Haiku45\<rparr>]
   \<and> isGenerating (view (runCompact ''x'' Spawned exOneUserWorld))"
  by (simp add: runCompact_sent)
     (simp add: ex_defs exOneUserWorld_def runCompact_def Let_def closeContextPopup_def
        showCompactAnimation_def setInputEnabled_def service_sendMessage_def)

section \<open>The daily usage ledger (C7)\<close>

text \<open>
  C7, with the guard the code has: a ContextUpdate event for a session that is not displayed
  never changes the ledger; one for the displayed session that carries usage adds the
  difference between the event's total and the last recorded total to the day's entry when
  that difference is positive, and leaves the ledger alone otherwise; the statistics of the
  stored session are written for any session.
\<close>

theorem ledger_only_for_displayed_session:
  "(Some sid \<noteq> activeSessionId (view w) \<longrightarrow>
      tokenHistory (settings (plugin (on_contextUpdate env sid usage w)))
        = tokenHistory (settings (plugin w)))
   \<and> (Some sid' = activeSessionId (view w) \<and> findSession sid' (sessions (plugin w)) = Some s' \<longrightarrow>
        tokenHistory (settings (plugin (on_contextUpdate env sid' (Some u) w)))
          = (if orZero (input_tokens u) + orZero (output_tokens u) - lastRecordedTokens (view w) > 0
             then (tokenHistory (settings (plugin w)))
                    (today env \<mapsto>
                       (case tokenHistory (settings (plugin w)) (today env) of None \<Rightarrow> 0 | Some v \<Rightarrow> v)
                       + (orZero (input_tokens u) + orZero (output_tokens u) - lastRecordedTokens (view w)))
             else tokenHistory (settings (plugin w))))
   \<and> (findSession sid (sessions (plugin w)) = Some s \<longrightarrow>
        map_option s_tokenStats (findSession sid (sessions (plugin (on_contextUpdate env sid (Some u) w))))
          = Some (Some (applyUsage u (s_tokenStats s))))"
proof (intro conjI impI)
  assume "Some sid \<noteq> activeSessionId (view w)"
  then show "tokenHistory (settings (plugin (on_contextUpdate env sid usage w)))
        = tokenHistory (settings (plugin w))"
    by (rule cu_history_background)
next
  assume "Some sid' = activeSessionId (view w) \<and> findSession sid' (sessions (plugin w)) = Some s'"
  then show "tokenHistory (settings (plugin (on_contextUpdate env sid' (Some u) w)))
          = (if orZero (input_tokens u) + orZero (output_tokens u) - lastRecordedTokens (view w) > 0
             then (tokenHistory (settings (plugin w)))
                    (today env \<mapsto>
                       (case tokenHistory (settings (plugin w)) (today env) of None \<Rightarrow> 0 | Some v \<Rightarrow> v)
                       + (orZero (input_tokens u) + orZero (output_tokens u) - lastRecordedTokens (view w)))
             else tokenHistory (settings (plugin w)))"
    using cu_history_foreground by blast
next
  assume h: "findSession sid (sessions (plugin w)) = Some s"
  show "map_option s_tokenStats (findSession sid (sessions (plugin (on_contextUpdate env sid (Some u) w))))
          = Some (Some (applyUsage u (s_tokenStats s)))"
    by (simp add: cu_sessions [OF h] findSession_updateSession h)
qed

theorem ledger_only_for_displayed_session_witness:
  "Some ''b'' \<noteq> activeSessionId (view exWorld)
   \<and> Some ''a'' = activeSessionId (view exWorld)
   \<and> findSession ''a'' (sessions (plugin exWorld)) = Some exSessionA
   \<and> findSession ''b'' (sessions (plugin exWorld)) = Some exSessionB
   \<and> tokenHistory (settings (plugin (on_contextUpdate exEnv ''b'' (Some exUsageMore) exWorld)))
       = Map.empty
   \<and> tokenHistory (settings (plugin (on_contextUpdate exEnv ''a'' (Some exUsageMore) exWorld)))
       = [''2025-01-01'' \<mapsto> 1500]
   \<and> map_option s_tokenStats (findSession ''b'' (sessions (plugin (on_contextUpdate exEnv ''b'' (Some exUsageMore) exWorld))))
       = Some (Some \<lparr>inputTokens = 61000, outputTokens = 8500, contextWindow = 200000,
                     cacheReadTokens = 10, compactCount = 0, lastCompactPreTokens = None\<rparr>)"
proof -
  have h: "Some ''b'' \<noteq> activeSessionId (view exWorld)" "Some ''a'' = activeSessionId (view exWorld)"
    "findSession ''a'' (sessions (plugin exWorld)) = Some exSessionA"
    "findSession ''b'' (sessions (plugin exWorld)) = Some exSessionB"
    by (simp_all add: ex_defs findSession_def)
  have e: "tokenHistory (settings (plugin exWorld)) = Map.empty" "lastRecordedTokens (view exWorld) = 68000"
    "today exEnv = ''2025-01-01''"
    "applyUsage exUsageMore (s_tokenStats exSessionB)
       = \<lparr>inputTokens = 61000, outputTokens = 8500, contextWindow = 200000,
          cacheReadTokens = 10, compactCount = 0, lastCompactPreTokens = None\<rparr>"
    "orZero (input_tokens exUsageMore) = 61000" "orZero (output_tokens exUsageMore) = 8500"
    by (simp_all add: ex_defs exUsageMore_def applyUsage_def orZero_def initialTokenStats_def)
  from ledger_only_for_displayed_session
         [of "''b''" exWorld exEnv "Some exUsageMore" "''a''" exSessionA exUsageMore exSessionB] h
  show ?thesis by (simp add: e)
qed

text \<open>
  The specification has every event of the displayed session advance the ledger. With 68000 tokens
  recorded, an event reporting 5000 leaves it as it was.
\<close>

theorem C7_counterexample:
  "activeSessionId (view exWorld) = Some ''a''
   \<and> findSession ''a'' (sessions (plugin exWorld)) = Some exSessionA
   \<and> lastRecordedTokens (view exWorld) = 68000
   \<and> tokenHistory (settings (plugin (on_contextUpdate exEnv ''a'' (Some exUsage) exWorld)))
       = tokenHistory (settings (plugin exWorld))"
proof -
  have h: "findSession ''a'' (sessions (plugin exWorld)) = Some exSessionA"
    by (simp add: ex_defs findSession_def)
  have a: "Some ''a'' = activeSessionId (view exWorld)" "lastRecordedTokens (view exWorld) = 68000"
    by (simp_all add: ex_defs)
  show ?thesis
    using h a by (simp add: cu_history_foreground [OF a(1) h] exUsage_def orZero_def)
qed

section \<open>ContextUpdate overwrites (C8)\<close>

text \<open>
  C8, with the window the code writes: a ContextUpdate event stores the event's input, output
  and cache-read counts (0 for a missing one) in the session's statistics whatever they were
  before, sets the nominal window to the constant 200000, and keeps the compaction counter and
  the pre-compaction total; processing the same event a second time leaves every session as
  the first time did.
\<close>

theorem contextUpdate_overwrites_idempotent:
  assumes "findSession sid (sessions (plugin w)) = Some s"
  shows "map_option s_tokenStats (findSession sid (sessions (plugin (on_contextUpdate env sid (Some u) w))))
           = Some (Some (applyUsage u (s_tokenStats s)))
       \<and> inputTokens (applyUsage u old) = orZero (input_tokens u)
       \<and> outputTokens (applyUsage u old) = orZero (output_tokens u)
       \<and> cacheReadTokens (applyUsage u old) = orZero (cache_read_input_tokens u)
       \<and> contextWindow (applyUsage u old) = 200000
       \<and> compactCount (applyUsage u (Some t)) = compactCount t
       \<and> lastCompactPreTokens (applyUsage u (Some t)) = lastCompactPreTokens t
       \<and> sessions (plugin (on_contextUpdate env' sid usage (on_contextUpdate env sid usage w)))
           = sessions (plugin (on_contextUpdate env sid usage w))"
proof -
  have "map_option s_tokenStats (findSession sid (sessions (plugin (on_contextUpdate env sid (Some u) w))))
           = Some (Some (applyUsage u (s_tokenStats s)))"
    by (simp add: cu_sessions [OF assms] findSession_updateSession assms)
  moreover have "inputTokens (applyUsage u old) = orZero (input_tokens u)"
    "outputTokens (applyUsage u old) = orZero (output_tokens u)"
    "cacheReadTokens (applyUsage u old) = orZero (cache_read_input_tokens u)"
    "contextWindow (applyUsage u old) = 200000"
    "compactCount (applyUsage u (Some t)) = compactCount t"
    "lastCompactPreTokens (applyUsage u (Some t)) = lastCompactPreTokens t"
    by (simp_all add: applyUsage_def)
  ultimately show ?thesis using cu_idem by blast
qed

theorem contextUpdate_overwrites_idempotent_witness:
  "findSession ''a'' (sessions (plugin exWorld)) = Some exSessionA
   \<and> map_option s_tokenStats (findSession ''a'' (sessions (plugin (on_contextUpdate exEnv ''a'' (Some exUsage) exWorld))))
       = Some (Some \<lparr>inputTokens = 3000, outputTokens = 2000, contextWindow = 200000,
                     cacheReadTokens = 0, compactCount = 0, lastCompactPreTokens = None\<rparr>)
   \<and> sessions (plugin (on_contextUpdate exEnv ''a'' (Some exUsage) (on_contextUpdate exEnv ''a'' (Some exUsage) exWorld)))
       = sessions (plugin (on_contextUpdate exEnv ''a'' (Some exUsage) exWorld))"
proof -
  have h: "findSession ''a'' (sessions (plugin exWorld)) = Some exSessionA"
    by (simp add: ex_defs findSession_def)
  have a: "applyUsage exUsage (s_tokenStats exSessionA)
            = \<lparr>inputTokens = 3000, outputTokens = 2000, contextWindow = 200000,
               cacheReadTokens = 0, compactCount = 0, lastCompactPreTokens = None\<rparr>"
    by (simp add: ex_defs exUsage_def applyUsage_def orZero_def)
  from contextUpdate_overwrites_idempotent [OF h, of exEnv exUsage None exStats exEnv "Some exUsage"] h
  show ?thesis by (simp add: a)
qed

text \<open>
  The specification has the nominal window replaced by a value of the event. The event carries
  four counts and no window: a session stored with a window of 100000 has 200000 afterwards,
  which is none of them.
\<close>

theorem C8_counterexample:
  "map_option (map_option contextWindow \<circ> s_tokenStats)
     (findSession ''a'' (sessions (plugin exWindowWorld))) = Some (Some 100000)
   \<and> exUsage = \<lparr>input_tokens = Some 3000, output_tokens = Some 2000,
                  cache_read_input_tokens = None, cache_creation_input_tokens = Some 7\<rparr>
   \<and> map_option (map_option contextWindow \<circ> s_tokenStats)
       (findSession ''a'' (sessions (plugin (on_contextUpdate exEnv ''a'' (Some exUsage) exWindowWorld))))
       = Some (Some 200000)"
  by (simp add: exWindowWorld_def exUsage_def ex_defs on_contextUpdate_def Let_def findSession_def
      applyUsage_def orZero_def saveSettings_def addTokensToHistory_def)

section \<open>Turns with tool steps only (C9)\<close>

text \<open>
  C9 does not hold for a background session. The pending message of session \<open>b\<close> has two
  tool steps and no text: the Result event leaves the whole state as it was, so the steps are
  never stored. For the displayed session \<open>a\<close> the same turn is stored, as an assistant
  message with empty text and both steps.
\<close>

theorem C9_background_tool_only_turn_dropped:
  "Some ''b'' \<noteq> activeSessionId (view exWorld)
   \<and> getPendingMessage (service (withPending ''b'' exToolsOnly exWorld)) ''b'' = Some exToolsOnly
   \<and> on_result exEnv ''b'' False [] (withPending ''b'' exToolsOnly exWorld)
        = withPending ''b'' exToolsOnly exWorld
   \<and> map_option s_messages (findSession ''b'' (sessions (plugin
         (on_result exEnv ''b'' False [] (withPending ''b'' exToolsOnly exWorld)))))
        = Some [exUserMsg]
   \<and> Some ''a'' = activeSessionId (view exWorld)
   \<and> map_option s_messages (findSession ''a'' (sessions (plugin
         (on_result exEnv ''a'' False []
            (withPending ''a'' exToolsOnly
               (on_toolUse exEnv ''a'' exTool2 (on_toolUse exEnv ''a'' exTool1 exWorld)))))))
        = Some [exUserMsg, exAssistantMsg,
                \<lparr>m_id = ''u2'', m_role = Assistant, m_content = [], m_timestamp = 5,
                 m_thinkingSteps = Some [exTool1, exTool2], m_selectionContext = None\<rparr>]"
  by (simp add: ex_defs withPending_def exToolsOnly_def on_result_def result_persist_def findSession_def
      getPendingMessage_def Let_def on_toolUse_def addToolStep_def finalizeAssistantMessage_def
      trim_values pushViewMessage_def saveCurrentSession_def updateCurrentSession_def
      getCurrentSession_def getCliSessionId_def autoTitle_def saveSettings_def setStatus_def)

text \<open>
  With text in the turn the tool steps are stored for both kinds of session. Two tool steps
  followed by the text \<open>done\<close>: the background session \<open>b\<close> gets one assistant message with
  both steps; the displayed session \<open>a\<close> gets the steps twice, once in the message that
  \<^verbatim>\<open>saveToolStepsAsMessage\<close> stores when the text starts and once in the message that the
  result listener builds from the pending message, followed by the text alone.
\<close>

lemma scenario_D_two_tools_then_text:
  "map_option (map m_thinkingSteps \<circ> s_messages) (findSession ''b'' (sessions (plugin
      (on_result exEnv ''b'' False []
         (withPending ''b'' exTextAndTools
            (on_streaming exEnv ''b'' ''done''
               (on_toolUse exEnv ''b'' exTool2 (on_toolUse exEnv ''b'' exTool1 exWorld))))))))
     = Some [None, Some [exTool1, exTool2]]
   \<and> map_option (map m_thinkingSteps \<circ> s_messages) (findSession ''a'' (sessions (plugin
      (on_result exEnv ''a'' False []
         (withPending ''a'' exTextAndTools
            (on_streaming exEnv ''a'' ''done''
               (on_toolUse exEnv ''a'' exTool2 (on_toolUse exEnv ''a'' exTool1 exWorld))))))))
     = Some [None, None, Some [exTool1, exTool2], Some [exTool1, exTool2], None]"
  by (simp add: ex_defs withPending_def exTextAndTools_def on_result_def result_persist_def
      findSession_def getPendingMessage_def Let_def on_toolUse_def addToolStep_def
      on_streaming_def updateAssistantMessage_def saveToolStepsAsMessage_def
      createStreamingTextElement_def finalizeAssistantMessage_def trim_values
      pushViewMessage_def pushSessionMessage_def saveCurrentSession_def updateCurrentSession_def
      getCurrentSession_def getCliSessionId_def autoTitle_def saveSettings_def setStatus_def
      clearPendingMessage_def)

section \<open>Deleting a session (C10)\<close>

text \<open>
  C10: with distinct, non-empty session ids, at least one session and a current session that
  exists, deleting through the view leaves at least one session and a current session that
  exists; with one session nothing is deleted; otherwise the sessions with the given id are
  removed and, when that was the current one, the first remaining session becomes current.
\<close>

theorem deleteSessionWithConfirm_valid:
  assumes "distinct (map s_id (sessions (plugin w)))"
      and "[] \<notin> s_id ` set (sessions (plugin w))"
      and "sessions (plugin w) \<noteq> []"
      and "getCurrentSession (plugin w) \<noteq> None"
  shows "sessions (plugin (deleteSessionWithConfirm sid w)) \<noteq> []
       \<and> getCurrentSession (plugin (deleteSessionWithConfirm sid w)) \<noteq> None
       \<and> (if length (sessions (plugin w)) = 1 then deleteSessionWithConfirm sid w = w
          else sessions (plugin (deleteSessionWithConfirm sid w))
                 = filter (\<lambda>s. s_id s \<noteq> sid) (sessions (plugin w))
               \<and> currentSessionId (plugin (deleteSessionWithConfirm sid w))
                 = (if currentSessionId (plugin w) = Some sid
                    then Some (s_id (hd (sessions (plugin (deleteSessionWithConfirm sid w)))))
                    else currentSessionId (plugin w)))"
proof (cases "length (sessions (plugin w)) \<le> 1")
  case True
  then have "deleteSessionWithConfirm sid w = w" by (simp add: deleteSessionWithConfirm_def)
  moreover from True assms(3) have "length (sessions (plugin w)) = 1"
    by (cases "sessions (plugin w)") simp_all
  ultimately show ?thesis using assms by simp
next
  case False
  then have len: "length (sessions (plugin w)) > 1" by simp
  have pl: "plugin (deleteSessionWithConfirm sid w) = deleteSession sid (plugin w)"
    using False by (simp add: deleteSessionWithConfirm_def Let_def plugin_loadSession split: option.splits)
  note v = deleteSession_valid [OF assms(1) assms(2) len assms(4), of sid]
  show ?thesis
    unfolding pl using v len
    by (simp add: deleteSession_sessions deleteSession_current)
qed

theorem deleteSessionWithConfirm_valid_witness:
  "distinct (map s_id (sessions (plugin exWorld)))
   \<and> [] \<notin> s_id ` set (sessions (plugin exWorld))
   \<and> sessions (plugin exWorld) \<noteq> []
   \<and> getCurrentSession (plugin exWorld) \<noteq> None
   \<and> currentSessionId (plugin exWorld) = Some ''a''
   \<and> sessions (plugin (deleteSessionWithConfirm ''a'' exWorld)) = [exSessionB]
   \<and> currentSessionId (plugin (deleteSessionWithConfirm ''a'' exWorld)) = Some ''b''
   \<and> getCurrentSession (plugin (deleteSessionWithConfirm ''a'' exWorld)) \<noteq> None"
proof -
  have h: "distinct (map s_id (sessions (plugin exWorld)))"
    "[] \<notin> s_id ` set (sessions (plugin exWorld))"
    "sessions (plugin exWorld) \<noteq> []"
    "getCurrentSession (plugin exWorld) \<noteq> None"
    by (simp_all add: ex_defs getCurrentSession_def findSession_def)
  have e: "sessions (plugin exWorld) = [exSessionA, exSessionB]"
    "s_id exSessionA = ''a''" "s_id exSessionB = ''b''"
    "currentSessionId (plugin exWorld) = Some ''a''"
    by (simp_all add: ex_defs)
  from deleteSessionWithConfirm_valid [OF h, of "''a''"] h show ?thesis
    by (simp add: e)
qed

end
